theory Spec2Isabelle
  imports Complex_Main
begin

section \<open>Numbers, labels and the two quaternion representations\<close>

text \<open>
  The programs are the browser renderer \<^verbatim>\<open>threejs_ybot_renderer/main.js\<close> and the Node
  CSV logger (\<^verbatim>\<open>unnamed/part_000\<close>). A JavaScript number is modelled as a real number:
  the arithmetic is exact, and rounding, overflow, infinities and NaN are outside the
  model. A limb label is a string. The tables that the code keys by label are plain
  JavaScript objects, in which a key that names a property every object inherits
  (\<^verbatim>\<open>constructor\<close>, \<^verbatim>\<open>__proto__\<close>, \<^verbatim>\<open>toString\<close> and the like) is found even in an empty table; the
  maps of the model have no such keys, so these strings, which are no limb labels, are
  outside the model.

  The code holds a quaternion in two shapes. Calibration samples and references are plain
  objects \<^verbatim>\<open>{w, x, y, z}\<close>; live samples, the global pose table and bone rotations are
  \<^verbatim>\<open>THREE.Quaternion\<close> objects, whose constructor takes \<^verbatim>\<open>(x, y, z, w)\<close>.
\<close>

type_synonym label = string

datatype quat = Quat (qw: real) (qx: real) (qy: real) (qz: real)

datatype Quaternion = Quaternion (tx: real) (ty: real) (tz: real) (tw: real)

text \<open>Reading a \<^verbatim>\<open>THREE.Quaternion\<close> through its \<^verbatim>\<open>.w .x .y .z\<close> getters, and building one
  from a plain object as \<^verbatim>\<open>new THREE.Quaternion(q.x, q.y, q.z, q.w)\<close>.\<close>

definition plain :: "Quaternion \<Rightarrow> quat" where
  "plain q = Quat (tw q) (tx q) (ty q) (tz q)"

definition three :: "quat \<Rightarrow> Quaternion" where
  "three q = Quaternion (qx q) (qy q) (qz q) (qw q)"

subsection \<open>The three.js operations the code calls\<close>

text \<open>
  three.js is an external library. Its \<^verbatim>\<open>Quaternion\<close> methods are modelled after the
  library's source:
  \<^item> \<^verbatim>\<open>length()\<close> is \<^verbatim>\<open>Math.sqrt(x*x + y*y + z*z + w*w)\<close>;
  \<^item> \<^verbatim>\<open>normalize()\<close> sets the quaternion to \<^verbatim>\<open>(0, 0, 0, 1)\<close> when the length is \<^verbatim>\<open>0\<close>, and
    otherwise multiplies every component by \<^verbatim>\<open>1 / length\<close>;
  \<^item> \<^verbatim>\<open>a.multiply(b)\<close> is \<^verbatim>\<open>multiplyQuaternions(a, b)\<close>, with the four component formulas
    below;
  \<^item> \<^verbatim>\<open>conjugate()\<close> negates \<^verbatim>\<open>x, y, z\<close>, and \<^verbatim>\<open>invert()\<close> is \<^verbatim>\<open>conjugate()\<close> (the library
    assumes unit length);
  \<^item> \<^verbatim>\<open>new THREE.Quaternion()\<close> is \<^verbatim>\<open>(0, 0, 0, 1)\<close>; \<^verbatim>\<open>clone()\<close> and \<^verbatim>\<open>copy()\<close> copy the four
    components, which in a model of values is the identity function.
\<close>

definition q_length :: "Quaternion \<Rightarrow> real" where
  "q_length q = sqrt (tx q * tx q + ty q * ty q + tz q * tz q + tw q * tw q)"

definition q_normalize :: "Quaternion \<Rightarrow> Quaternion" where
  "q_normalize q =
     (let l = q_length q in
      if l = 0 then Quaternion 0 0 0 1
      else (let l' = 1 / l in Quaternion (tx q * l') (ty q * l') (tz q * l') (tw q * l')))"

definition q_multiply :: "Quaternion \<Rightarrow> Quaternion \<Rightarrow> Quaternion" where
  "q_multiply a b =
     Quaternion
       (tx a * tw b + tw a * tx b + ty a * tz b - tz a * ty b)
       (ty a * tw b + tw a * ty b + tz a * tx b - tx a * tz b)
       (tz a * tw b + tw a * tz b + tx a * ty b - ty a * tx b)
       (tw a * tw b - tx a * tx b - ty a * ty b - tz a * tz b)"

definition q_conjugate :: "Quaternion \<Rightarrow> Quaternion" where
  "q_conjugate q = Quaternion (- tx q) (- ty q) (- tz q) (tw q)"

definition q_invert :: "Quaternion \<Rightarrow> Quaternion" where
  "q_invert q = q_conjugate q"

definition q_identity :: Quaternion where
  "q_identity = Quaternion 0 0 0 1"

subsection \<open>normalizeQuat, in the renderer and in the logger\<close>

text \<open>\<^verbatim>\<open>Math.hypot(a, b, c, d)\<close> is the square root of the sum of the squares.\<close>

definition hypot :: "real \<Rightarrow> real \<Rightarrow> real \<Rightarrow> real \<Rightarrow> real" where
  "hypot a b c d = sqrt (a * a + b * b + c * c + d * d)"

text \<open>Renderer: \<^verbatim>\<open>return len > 0 ? { w: q.w / len, ... } : q\<close>.\<close>

definition normalizeQuat :: "quat \<Rightarrow> quat" where
  "normalizeQuat q =
     (let len = hypot (qw q) (qx q) (qy q) (qz q) in
      if len > 0 then Quat (qw q / len) (qx q / len) (qy q / len) (qz q / len) else q)"

text \<open>Logger: \<^verbatim>\<open>return len === 0 ? q : { w: q.w / len, ... }\<close>.\<close>

definition normalizeQuat_node :: "quat \<Rightarrow> quat" where
  "normalizeQuat_node q =
     (let len = hypot (qw q) (qx q) (qy q) (qz q) in
      if len = 0 then q else Quat (qw q / len) (qx q / len) (qy q / len) (qz q / len))"

section \<open>The skeleton tables of the renderer\<close>

text \<open>\<^verbatim>\<open>parentLabel\<close>, in the order the object literal lists its keys; \<^verbatim>\<open>null\<close> is \<open>None\<close>.\<close>

definition parentLabel :: "(label \<times> label option) list" where
  "parentLabel =
     [(''HIPS'', None),
      (''SP'', Some ''HIPS''),
      (''SP2'', Some ''SP''),
      (''H'', Some ''SP2''),
      (''RA'', Some ''SP2''),
      (''RFA'', Some ''RA''),
      (''LA'', Some ''SP2''),
      (''LFA'', Some ''LA''),
      (''RUL'', Some ''HIPS''),
      (''RL'', Some ''RUL''),
      (''LUL'', Some ''HIPS''),
      (''LL'', Some ''LUL'')]"

text \<open>\<^verbatim>\<open>parentLabel[label]\<close> as the code tests it: \<^verbatim>\<open>null\<close> and a missing key are both falsy,
  so both are \<open>None\<close>.\<close>

definition parent_of :: "label \<Rightarrow> label option" where
  "parent_of l = (case map_of parentLabel l of Some (Some p) \<Rightarrow> Some p | _ \<Rightarrow> None)"

text \<open>The array \<^verbatim>\<open>order\<close> of \<^verbatim>\<open>applySensorToBones\<close> (\<open>order\<close> itself names a type class of
  HOL).\<close>

definition visit_order :: "label list" where
  "visit_order =
     [''HIPS'', ''SP'', ''SP2'', ''H'',
      ''RA'', ''RFA'',
      ''LA'', ''LFA'',
      ''RUL'', ''RL'',
      ''LUL'', ''LL'']"

text \<open>The position of a label in a list (the length of the list when it is not there).\<close>

fun position :: "label \<Rightarrow> label list \<Rightarrow> nat" where
  "position l [] = 0"
| "position l (k # ks) = (if k = l then 0 else Suc (position l ks))"

section \<open>The renderer: state and operations\<close>

text \<open>What the program writes to the console or shows in an alert box.\<close>

datatype emitted = Log string | LogQuat string quat | Err string | Alert string

text \<open>A mapped bone: \<^verbatim>\<open>userData.bindQuat\<close>, \<^verbatim>\<open>userData.bindInv\<close> and the rotation
  \<^verbatim>\<open>bone.quaternion\<close> that the retargeting pass writes.\<close>

record bone =
  bindQuat :: Quaternion
  bindInv :: Quaternion
  quaternion :: Quaternion

text \<open>A line of \<^verbatim>\<open>csvRows\<close>: the header, or \<^verbatim>\<open>label,w,x,y,z,timestamp\<close>.\<close>

datatype csv_row = Header | Row label real real real real nat

text \<open>The module-level variables of the renderer. The socket table, \<^verbatim>\<open>count\<close> and
  \<^verbatim>\<open>calibrationStartTime\<close> are written but never read by the functions below and are left
  out.\<close>

record renderer =
  boneMap :: "label \<rightharpoonup> bone"
  connected :: "label list"
  calibrationData :: "label \<rightharpoonup> quat list"
  qRef :: "label \<rightharpoonup> quat"
  isCalibrating :: bool
  calibrated :: bool
  sensorGlobal :: "label \<rightharpoonup> Quaternion"
  csvRows :: "csv_row list"
  console :: "emitted list"

definition initial :: renderer where
  "initial =
     \<lparr>boneMap = Map.empty, connected = [], calibrationData = Map.empty, qRef = Map.empty,
      isCalibrating = False, calibrated = False, sensorGlobal = Map.empty,
      csvRows = [Header], console = []\<rparr>"

text \<open>The model loader, for one bone whose name is mapped to label \<open>l\<close>: the bind rotation
  is cloned, and its \<^verbatim>\<open>invert()\<close> stored beside it.\<close>

definition mapBone :: "label \<Rightarrow> Quaternion \<Rightarrow> renderer \<Rightarrow> renderer" where
  "mapBone l q s =
     s\<lparr>boneMap := (boneMap s)(l \<mapsto> \<lparr>bindQuat = q, bindInv = q_invert q, quaternion = q\<rparr>),
       console := console s @ [Log (''Mapped label '' @ l)]\<rparr>"

text \<open>\<^verbatim>\<open>ws.onopen\<close> of \<^verbatim>\<open>connectSensor(label, ip)\<close>.\<close>

definition ws_onopen :: "label \<Rightarrow> renderer \<Rightarrow> renderer" where
  "ws_onopen l s =
     s\<lparr>connected := (if l \<in> set (connected s) then connected s else connected s @ [l]),
       console := console s @ [Log (''Connected to sensor: '' @ l)]\<rparr>"

text \<open>\<^verbatim>\<open>startCalibration\<close>; the two timers it sets are the environment's, which later calls
  \<open>finishCalibration\<close>.\<close>

definition startCalibration :: "renderer \<Rightarrow> renderer" where
  "startCalibration s =
     s\<lparr>isCalibrating := True,
       calibrationData := fold (\<lambda>l cd. cd(l \<mapsto> [])) (connected s) (calibrationData s),
       console := console s @ [Log ''Collecting T-Pose samples for 30 seconds...'']\<rparr>"

text \<open>The loop \<^verbatim>\<open>for (const q of samples) { sum.w += q.w; ... }\<close> and the division of the sum
  by \<^verbatim>\<open>samples.length\<close>.\<close>

fun sum_samples :: "quat list \<Rightarrow> quat \<Rightarrow> quat" where
  "sum_samples [] s = s"
| "sum_samples (q # qs) s =
     sum_samples qs (Quat (qw s + qw q) (qx s + qx q) (qy s + qy q) (qz s + qz q))"

definition average :: "quat list \<Rightarrow> quat" where
  "average samples =
     (let s = sum_samples samples (Quat 0 0 0 0); n = real (length samples) in
      Quat (qw s / n) (qx s / n) (qy s / n) (qz s / n))"

text \<open>The body of the loop of \<^verbatim>\<open>finishCalibration\<close> for one label; \<^verbatim>\<open>samples?.length > 0\<close> is
  false when the label has no buffer.\<close>

definition finish_label :: "(label \<rightharpoonup> quat list) \<Rightarrow> label \<Rightarrow> (label \<rightharpoonup> quat) \<Rightarrow> (label \<rightharpoonup> quat)" where
  "finish_label cd l qr =
     (case cd l of
        None \<Rightarrow> qr
      | Some samples \<Rightarrow>
          if length samples > 0 then qr(l \<mapsto> normalizeQuat (average samples)) else qr)"

text \<open>\<^verbatim>\<open>finishCalibration\<close> of the renderer loops over \<^verbatim>\<open>connected\<close>.\<close>

definition finishCalibration :: "renderer \<Rightarrow> renderer" where
  "finishCalibration s =
     s\<lparr>qRef := fold (finish_label (calibrationData s)) (connected s) (qRef s),
       isCalibrating := False,
       calibrated := True,
       console := console s @
         [Log ''T-Pose calibration done!'', Alert ''T-Pose calibration completed!'']\<rparr>"

text \<open>\<^verbatim>\<open>applyCalibration(label, qNow)\<close> of the renderer; \<open>qNow\<close> is a \<^verbatim>\<open>THREE.Quaternion\<close>, and
  so is the result.\<close>

definition applyCalibration :: "(label \<rightharpoonup> quat) \<Rightarrow> label \<Rightarrow> Quaternion \<Rightarrow> Quaternion" where
  "applyCalibration qr l qNow =
     (case qr l of
        None \<Rightarrow> qNow
      | Some ref \<Rightarrow>
          (let conj = Quaternion (- qx ref) (- qy ref) (- qz ref) (qw ref);
               qRelative = q_multiply conj qNow
           in q_normalize qRelative))"

text \<open>\<^verbatim>\<open>boneOffset\<close> holds \<^verbatim>\<open>new THREE.Quaternion()\<close> for every key of \<^verbatim>\<open>labelToBoneName\<close>, and
  nothing changes it. The pass reads it at the labels of \<^verbatim>\<open>order\<close> only, which are keys
  of that table.\<close>

definition boneOffset :: "label \<Rightarrow> Quaternion" where
  "boneOffset l = Quaternion 0 0 0 1"

text \<open>The parent-relative rotation of \<^verbatim>\<open>applySensorToBones\<close>: \<open>sg\<close> is \<^verbatim>\<open>sensorGlobal\<close> as it
  stands when the joint is visited, \<open>sensorQ\<close> the joint's own (just normalized) entry.\<close>

definition localSensorQuat :: "(label \<rightharpoonup> Quaternion) \<Rightarrow> label \<Rightarrow> Quaternion \<Rightarrow> Quaternion" where
  "localSensorQuat sg l sensorQ =
     (case parent_of l of
        None \<Rightarrow> sensorQ
      | Some parent \<Rightarrow>
          (case sg parent of
             None \<Rightarrow> sensorQ
           | Some gp \<Rightarrow> q_multiply (q_invert gp) sensorQ))"

definition qFinal :: "label \<Rightarrow> bone \<Rightarrow> Quaternion \<Rightarrow> Quaternion" where
  "qFinal l b loc =
     (if l = ''HIPS'' then q_multiply (q_multiply (bindQuat b) loc) (boneOffset l)
      else q_multiply (q_multiply (bindInv b) loc) (boneOffset l))"

text \<open>One iteration of the loop of \<^verbatim>\<open>applySensorToBones\<close>. \<^verbatim>\<open>sensorQ.normalize()\<close> changes
  the object held in \<^verbatim>\<open>sensorGlobal[label]\<close>, so the table is updated too.\<close>

definition visit :: "label \<Rightarrow> (label \<rightharpoonup> Quaternion) \<times> (label \<rightharpoonup> bone) \<Rightarrow>
    (label \<rightharpoonup> Quaternion) \<times> (label \<rightharpoonup> bone)" where
  "visit l st =
     (case snd st l of
        None \<Rightarrow> st
      | Some b \<Rightarrow>
          (case fst st l of
             None \<Rightarrow> st
           | Some q \<Rightarrow>
               (let sensorQ = q_normalize q;
                    sg = (fst st)(l \<mapsto> sensorQ);
                    loc = localSensorQuat sg l sensorQ
                in (sg, (snd st)(l \<mapsto> b\<lparr>quaternion := q_normalize (qFinal l b loc)\<rparr>)))))"

definition applySensorToBones :: "renderer \<Rightarrow> renderer" where
  "applySensorToBones s =
     (let st = fold visit visit_order (sensorGlobal s, boneMap s) in
      s\<lparr>sensorGlobal := fst st, boneMap := snd st\<rparr>)"

text \<open>An incoming WebSocket message, after \<^verbatim>\<open>JSON.parse\<close>: text that does not parse, or an
  object with an optional \<^verbatim>\<open>label\<close>, a \<^verbatim>\<open>count\<close>, and a \<^verbatim>\<open>quaternion\<close> that is an array of
  numbers (\<open>None\<close> when the field is missing or is not an array). JSON text that parses to
  \<^verbatim>\<open>null\<close>, and arrays with elements that are not numbers, are outside the model.\<close>

datatype message = Malformed | Data "label option" nat "real list option"

text \<open>\<^verbatim>\<open>handleSensorMessage(label, event)\<close>; \<open>now\<close> is the value of \<^verbatim>\<open>Date.now()\<close>.\<close>

definition handleSensorMessage :: "label \<Rightarrow> message \<Rightarrow> nat \<Rightarrow> renderer \<Rightarrow> renderer" where
  "handleSensorMessage label event now s =
     (case event of
        Malformed \<Rightarrow>
          s\<lparr>console := console s @ [Err (''Failed to parse message for '' @ label)]\<rparr>
      | Data dlabel cnt dquat \<Rightarrow>
          (case dquat of
             None \<Rightarrow> s
           | Some arr \<Rightarrow>
               if length arr \<noteq> 4 then s
               else
                 (let payloadLabel =
                        (case dlabel of
                           None \<Rightarrow> label
                         | Some dl \<Rightarrow> if dl = [] then label else dl);
                      w = arr ! 0; x = arr ! 1; y = arr ! 2; z = arr ! 3;
                      q = Quaternion x y z w
                  in
                    if isCalibrating s then
                      s\<lparr>calibrationData := (calibrationData s)(payloadLabel \<mapsto>
                          (case calibrationData s payloadLabel of
                             None \<Rightarrow> []
                           | Some buf \<Rightarrow> buf) @ [Quat w x y z])\<rparr>
                    else if calibrated s then
                      (let calibratedQ = applyCalibration (qRef s) payloadLabel q in
                       applySensorToBones
                         (s\<lparr>csvRows := csvRows s @
                               [Row payloadLabel (tw calibratedQ) (tx calibratedQ)
                                  (ty calibratedQ) (tz calibratedQ) now],
                             sensorGlobal := (sensorGlobal s)(payloadLabel \<mapsto> calibratedQ)\<rparr>))
                    else s)))"

section \<open>The logger: state and operations\<close>

text \<open>A line of \<^verbatim>\<open>data.csv\<close> after the header: \<^verbatim>\<open>count,label,w,x,y,z\<close>.\<close>

datatype file_row = FileRow nat label real real real real

text \<open>The logger loops over the keys of \<^verbatim>\<open>calibrationData\<close> with \<^verbatim>\<open>for ... in\<close>, which
  visits string keys in the order they were inserted, so the buffers are an association
  list with one entry for each key, in insertion order.\<close>

record logger =
  l_calibrationData :: "(label \<times> quat list) list"
  l_qRef :: "label \<rightharpoonup> quat"
  l_isCalibrating :: bool
  l_calibrated :: bool
  l_file :: "file_row list"
  l_console :: "emitted list"

definition initial_node :: logger where
  "initial_node =
     \<lparr>l_calibrationData = [], l_qRef = Map.empty, l_isCalibrating = False,
      l_calibrated = False, l_file = [], l_console = []\<rparr>"

definition startCalibration_node :: "logger \<Rightarrow> logger" where
  "startCalibration_node s =
     (if l_isCalibrating s then s
      else s\<lparr>l_isCalibrating := True, l_calibrationData := [],
             l_console := l_console s @ [Log ''Starting 30-second T-Pose calibration...'']\<rparr>)"

text \<open>\<^verbatim>\<open>if (!calibrationData[label]) calibrationData[label] = []; calibrationData[label].push(q)\<close>\<close>

fun push_sample :: "label \<Rightarrow> quat \<Rightarrow> (label \<times> quat list) list \<Rightarrow> (label \<times> quat list) list" where
  "push_sample l q [] = [(l, [q])]"
| "push_sample l q ((k, buf) # cd) =
     (if k = l then (k, buf @ [q]) # cd else (k, buf) # push_sample l q cd)"

text \<open>The body of the loop of the logger's \<^verbatim>\<open>finishCalibration\<close> for one key, on the pair of
  \<^verbatim>\<open>qRef\<close> and the console.\<close>

definition finish_label_node :: "(label \<times> quat list) list \<Rightarrow> label \<Rightarrow>
    (label \<rightharpoonup> quat) \<times> emitted list \<Rightarrow> (label \<rightharpoonup> quat) \<times> emitted list" where
  "finish_label_node cd l st =
     (case map_of cd l of
        None \<Rightarrow> st
      | Some samples \<Rightarrow>
          if length samples = 0 then st
          else
            (let r = normalizeQuat_node (average samples) in
             ((fst st)(l \<mapsto> r), snd st @ [LogQuat (''Reference for '' @ l) r])))"

definition finishCalibration_node :: "logger \<Rightarrow> logger" where
  "finishCalibration_node s =
     (let st = fold (finish_label_node (l_calibrationData s)) (map fst (l_calibrationData s))
                 (l_qRef s, l_console s @ [Log ''Calibration complete!''])
      in s\<lparr>l_qRef := fst st, l_isCalibrating := False, l_calibrated := True,
           l_console := snd st @
             [Log ''T-Pose calibration applied. Logging CALIBRATED data now.'']\<rparr>)"

text \<open>\<^verbatim>\<open>applyCalibration(label, qNow)\<close> of the logger; \<open>qNow\<close> is a plain object, and so is the
  result.\<close>

definition applyCalibration_node :: "(label \<rightharpoonup> quat) \<Rightarrow> label \<Rightarrow> quat \<Rightarrow> quat" where
  "applyCalibration_node qr l qNow =
     (case qr l of
        None \<Rightarrow> qNow
      | Some ref \<Rightarrow>
          (let conj = Quaternion (- qx ref) (- qy ref) (- qz ref) (qw ref);
               qCurrent = Quaternion (qx qNow) (qy qNow) (qz qNow) (qw qNow);
               result = q_normalize (q_multiply conj qCurrent)
           in Quat (tw result) (tx result) (ty result) (tz result)))"

text \<open>\<^verbatim>\<open>ws.on("message", ...)\<close> of the logger. A missing \<^verbatim>\<open>label\<close> is the key
  \<^verbatim>\<open>"undefined"\<close>.\<close>

definition on_message :: "message \<Rightarrow> logger \<Rightarrow> logger" where
  "on_message msg s =
     (case msg of
        Malformed \<Rightarrow> s\<lparr>l_console := l_console s @ [Log ''Invalid JSON'']\<rparr>
      | Data dlabel cnt dquat \<Rightarrow>
          (case dquat of
             None \<Rightarrow> s\<lparr>l_console := l_console s @ [Log ''Control message'']\<rparr>
           | Some arr \<Rightarrow>
               if length arr \<noteq> 4 then s\<lparr>l_console := l_console s @ [Log ''Control message'']\<rparr>
               else
                 (let label = (case dlabel of None \<Rightarrow> ''undefined'' | Some dl \<Rightarrow> dl);
                      q = Quat (arr ! 0) (arr ! 1) (arr ! 2) (arr ! 3)
                  in
                    if l_isCalibrating s then
                      s\<lparr>l_calibrationData := push_sample label q (l_calibrationData s)\<rparr>
                    else
                      (let finalQuat =
                             (if l_calibrated s then applyCalibration_node (l_qRef s) label q
                              else q)
                       in s\<lparr>l_file := l_file s @
                              [FileRow cnt label (qw finalQuat) (qx finalQuat)
                                 (qy finalQuat) (qz finalQuat)]\<rparr>))))"

section \<open>The vocabulary of the specification\<close>

text \<open>The Euclidean norm of a quaternion, the component-wise mean of a buffer, the
  conjugate, and the Hamilton product with \<open>i\<^sup>2 = j\<^sup>2 = k\<^sup>2 = ijk = -1\<close>, written on
  \<open>(w, x, y, z)\<close> as the textbooks have it.\<close>

definition qnorm :: "quat \<Rightarrow> real" where
  "qnorm q = sqrt ((qw q)\<^sup>2 + (qx q)\<^sup>2 + (qy q)\<^sup>2 + (qz q)\<^sup>2)"

definition componentwise_mean :: "quat list \<Rightarrow> quat" where
  "componentwise_mean qs =
     Quat (sum_list (map qw qs) / real (length qs)) (sum_list (map qx qs) / real (length qs))
          (sum_list (map qy qs) / real (length qs)) (sum_list (map qz qs) / real (length qs))"

definition conjugate :: "quat \<Rightarrow> quat" where
  "conjugate q = Quat (qw q) (- qx q) (- qy q) (- qz q)"

definition hamilton :: "quat \<Rightarrow> quat \<Rightarrow> quat" where
  "hamilton a b =
     Quat (qw a * qw b - qx a * qx b - qy a * qy b - qz a * qz b)
          (qw a * qx b + qx a * qw b + qy a * qz b - qz a * qy b)
          (qw a * qy b - qx a * qz b + qy a * qw b + qz a * qx b)
          (qw a * qz b + qx a * qy b - qy a * qx b + qz a * qw b)"

definition identity :: quat where
  "identity = Quat 1 0 0 0"

definition unit_within_tolerance :: "quat \<Rightarrow> bool" where
  "unit_within_tolerance q \<longleftrightarrow> \<bar>qnorm q - 1\<bar> \<le> 1 / 1000000"

section \<open>Concrete states\<close>

text \<open>States and runs used to evaluate the operations. A run starts in \<open>initial\<close> (or
  \<open>initial_node\<close>) and applies the operations in the order in which the events arrive.

  LA is connected and collecting, and its buffer holds a sample and its negation.\<close>

definition antipodal_state :: renderer where
  "antipodal_state =
     initial\<lparr>connected := [''LA''],
       calibrationData := [''LA'' \<mapsto> [Quat 1 0 0 0, Quat (- 1) 0 0 0]],
       isCalibrating := True\<rparr>"

text \<open>The socket of RFA opens, calibration starts, and the socket delivers two identity samples
  whose payload says \<^verbatim>\<open>"label": "RA"\<close> (the label that the firmware source writes into every
  payload).\<close>

definition mislabelled_trace :: renderer where
  "mislabelled_trace =
     handleSensorMessage ''RFA'' (Data (Some ''RA'') 2 (Some [1, 0, 0, 0])) 40
       (handleSensorMessage ''RFA'' (Data (Some ''RA'') 1 (Some [1, 0, 0, 0])) 10
         (startCalibration (ws_onopen ''RFA'' initial)))"

text \<open>RA collects two identity samples, in the renderer and in the logger.\<close>

definition identity_trace :: renderer where
  "identity_trace =
     handleSensorMessage ''RA'' (Data (Some ''RA'') 2 (Some [1, 0, 0, 0])) 40
       (handleSensorMessage ''RA'' (Data (Some ''RA'') 1 (Some [1, 0, 0, 0])) 10
         (startCalibration (ws_onopen ''RA'' initial)))"

definition identity_trace_node :: logger where
  "identity_trace_node =
     on_message (Data (Some ''RA'') 2 (Some [1, 0, 0, 0]))
       (on_message (Data (Some ''RA'') 1 (Some [1, 0, 0, 0]))
         (startCalibration_node initial_node))"

text \<open>RA collects a sample and its negation, in the renderer and in the logger.\<close>

definition antipodal_trace :: renderer where
  "antipodal_trace =
     handleSensorMessage ''RA'' (Data (Some ''RA'') 2 (Some [- 1, 0, 0, 0])) 40
       (handleSensorMessage ''RA'' (Data (Some ''RA'') 1 (Some [1, 0, 0, 0])) 10
         (startCalibration (ws_onopen ''RA'' initial)))"

definition antipodal_trace_node :: logger where
  "antipodal_trace_node =
     on_message (Data (Some ''RA'') 2 (Some [- 1, 0, 0, 0]))
       (on_message (Data (Some ''RA'') 1 (Some [1, 0, 0, 0]))
         (startCalibration_node initial_node))"

text \<open>A calibrated renderer with the bones of RA, RFA and HIPS mapped, RA turned about the z
  axis, RFA and HIPS at the identity; the bind rotation of RFA and HIPS is that same
  turn.\<close>

definition pose_state :: renderer where
  "pose_state =
     (mapBone ''HIPS'' (Quaternion 0 0 (3 / 5) (4 / 5))
       (mapBone ''RFA'' (Quaternion 0 0 (3 / 5) (4 / 5))
         (mapBone ''RA'' (Quaternion 0 0 0 1) initial)))
       \<lparr>calibrated := True,
        sensorGlobal := [''HIPS'' \<mapsto> Quaternion 0 0 0 1,
          ''RA'' \<mapsto> Quaternion 0 0 (3 / 5) (4 / 5), ''RFA'' \<mapsto> Quaternion 0 0 0 1]\<rparr>"

text \<open>The payload of the README arrives for RA after a calibration that collected nothing (no
  model is loaded), and arrives at the logger before any calibration.\<close>

definition passthrough_trace :: renderer where
  "passthrough_trace =
     handleSensorMessage ''RA''
       (Data (Some ''RA'') 123 (Some [0.9981, 0.0123, - 0.0501, 0.0304])) 1000
       (finishCalibration (startCalibration (ws_onopen ''RA'' initial)))"

definition passthrough_trace_node :: logger where
  "passthrough_trace_node =
     on_message (Data (Some ''RA'') 123 (Some [0.9981, 0.0123, - 0.0501, 0.0304])) initial_node"

section \<open>Norms, normalization and the Hamilton product\<close>

lemma hypot_qnorm: "hypot (qw q) (qx q) (qy q) (qz q) = qnorm q"
  by (simp add: hypot_def qnorm_def power2_eq_square)

lemma q_length_three: "q_length (three q) = qnorm q"
  by (simp add: q_length_def three_def qnorm_def power2_eq_square add.commute add.left_commute)

lemma qnorm_plain: "qnorm (plain q) = q_length q"
  by (simp add: q_length_def plain_def qnorm_def power2_eq_square add.commute add.left_commute)

lemma qnorm_nonneg: "0 \<le> qnorm q"
  by (simp add: qnorm_def)

lemma qnorm_eq_0_iff: "qnorm q = 0 \<longleftrightarrow> q = Quat 0 0 0 0"
proof
  assume "qnorm q = 0"
  then have "(qw q)\<^sup>2 + (qx q)\<^sup>2 + (qy q)\<^sup>2 + (qz q)\<^sup>2 = 0"
    by (simp add: qnorm_def add_nonneg_eq_0_iff)
  then have "qw q = 0 \<and> qx q = 0 \<and> qy q = 0 \<and> qz q = 0"
    by (simp add: add_nonneg_eq_0_iff)
  then show "q = Quat 0 0 0 0"
    by (cases q) simp
next
  assume "q = Quat 0 0 0 0"
  then show "qnorm q = 0" by (simp add: qnorm_def)
qed

lemma normalizeQuat_unfold:
  "normalizeQuat q =
     (if qnorm q = 0 then q
      else Quat (qw q / qnorm q) (qx q / qnorm q) (qy q / qnorm q) (qz q / qnorm q))"
  using qnorm_nonneg [of q] by (simp add: normalizeQuat_def hypot_qnorm Let_def)

lemma normalizeQuat_node_unfold:
  "normalizeQuat_node q =
     (if qnorm q = 0 then q
      else Quat (qw q / qnorm q) (qx q / qnorm q) (qy q / qnorm q) (qz q / qnorm q))"
  by (simp add: normalizeQuat_node_def hypot_qnorm Let_def)

lemma normalizeQuat_zero: "normalizeQuat (Quat 0 0 0 0) = Quat 0 0 0 0"
  "normalizeQuat_node (Quat 0 0 0 0) = Quat 0 0 0 0"
  by (simp_all add: normalizeQuat_def normalizeQuat_node_def hypot_def)

lemma plain_three [simp]: "plain (three q) = q"
  by (cases q) (simp add: plain_def three_def)

lemma three_plain [simp]: "three (plain q) = q"
  by (cases q) (simp add: plain_def three_def)

lemma plain_inject: "plain a = plain b \<Longrightarrow> a = b"
  by (metis three_plain)

lemma plain_q_normalize_three:
  "plain (q_normalize (three q)) = (if qnorm q = 0 then identity else normalizeQuat q)"
proof (cases "qnorm q = 0")
  case True
  then have "q_length (three q) = 0" by (simp add: q_length_three)
  then show ?thesis using True by (simp add: q_normalize_def plain_def identity_def)
next
  case False
  then have "q_length (three q) \<noteq> 0" by (simp add: q_length_three)
  then have "q_normalize (three q) =
      Quaternion (qx q * (1 / qnorm q)) (qy q * (1 / qnorm q)) (qz q * (1 / qnorm q))
        (qw q * (1 / qnorm q))"
    by (simp add: q_normalize_def Let_def q_length_three) (simp add: three_def)
  then show ?thesis using False by (simp add: plain_def normalizeQuat_unfold)
qed

lemma plain_q_multiply: "plain (q_multiply a b) = hamilton (plain a) (plain b)"
  by (simp add: q_multiply_def plain_def hamilton_def algebra_simps)

lemma conj_three: "Quaternion (- qx r) (- qy r) (- qz r) (qw r) = three (conjugate r)"
  by (simp add: three_def conjugate_def)

lemma hamilton_conjugate_identity: "hamilton (conjugate identity) q = q"
  by (cases q) (simp add: hamilton_def conjugate_def identity_def)

lemma qnorm_scale:
  "qnorm (Quat (a * c) (b * c) (d * c) (e * c)) = \<bar>c\<bar> * qnorm (Quat a b d e)"
proof -
  have "(a * c)\<^sup>2 + (b * c)\<^sup>2 + (d * c)\<^sup>2 + (e * c)\<^sup>2 = c\<^sup>2 * (a\<^sup>2 + b\<^sup>2 + d\<^sup>2 + e\<^sup>2)"
    by (simp add: power2_eq_square algebra_simps)
  then show ?thesis
    by (simp add: qnorm_def real_sqrt_mult)
qed

lemma q_length_q_normalize: "q_length (q_normalize q) = 1"
proof (cases "q_length q = 0")
  case True
  then show ?thesis by (simp add: q_normalize_def q_length_def)
next
  case False
  have pos: "0 < q_length q"
    using False by (simp add: q_length_def less_le)
  have "q_length (q_normalize q) = qnorm (plain (q_normalize q))"
    by (simp add: qnorm_plain)
  also have "\<dots> = qnorm (Quat (tw q * (1 / q_length q)) (tx q * (1 / q_length q))
      (ty q * (1 / q_length q)) (tz q * (1 / q_length q)))"
    using False by (simp add: q_normalize_def Let_def plain_def)
  also have "\<dots> = \<bar>1 / q_length q\<bar> * qnorm (plain q)"
    unfolding qnorm_scale by (simp add: plain_def)
  also have "\<dots> = 1"
    using pos by (simp add: qnorm_plain)
  finally show ?thesis .
qed

lemma q_normalize_unit: "q_length g = 1 \<Longrightarrow> q_normalize g = g"
  by (cases g) (simp add: q_normalize_def Let_def)

lemma q_invert_unit:
  assumes "q_length g = 1"
  shows "q_multiply (q_invert g) g = q_identity"
proof -
  have "tx g * tx g + ty g * ty g + tz g * tz g + tw g * tw g = 1"
    using assms by (simp add: q_length_def)
  then show ?thesis
    by (simp add: q_multiply_def q_invert_def q_conjugate_def q_identity_def algebra_simps)
qed

lemma qnorm_normalizeQuat: "qnorm q \<noteq> 0 \<Longrightarrow> qnorm (normalizeQuat q) = 1"
proof -
  assume nz: "qnorm q \<noteq> 0"
  have "normalizeQuat q = plain (q_normalize (three q))"
    using nz by (simp add: plain_q_normalize_three)
  then show ?thesis
    by (simp add: qnorm_plain q_length_q_normalize)
qed

lemma qnorm_normalizeQuat_node: "qnorm q \<noteq> 0 \<Longrightarrow> qnorm (normalizeQuat_node q) = 1"
  using qnorm_normalizeQuat [of q]
  by (simp add: normalizeQuat_unfold normalizeQuat_node_unfold)

lemma q_length_q_multiply: "q_length (q_multiply a b) = q_length a * q_length b"
proof -
  have "(tx a * tw b + tw a * tx b + ty a * tz b - tz a * ty b)\<^sup>2
      + (ty a * tw b + tw a * ty b + tz a * tx b - tx a * tz b)\<^sup>2
      + (tz a * tw b + tw a * tz b + tx a * ty b - ty a * tx b)\<^sup>2
      + (tw a * tw b - tx a * tx b - ty a * ty b - tz a * tz b)\<^sup>2
      = ((tx a)\<^sup>2 + (ty a)\<^sup>2 + (tz a)\<^sup>2 + (tw a)\<^sup>2) * ((tx b)\<^sup>2 + (ty b)\<^sup>2 + (tz b)\<^sup>2 + (tw b)\<^sup>2)"
    by (simp add: power2_eq_square algebra_simps)
  then show ?thesis
    by (simp add: q_length_def q_multiply_def real_sqrt_mult [symmetric] power2_eq_square)
qed

lemma q_normalize_eq_normalizeQuat:
  "q_length g \<noteq> 0 \<Longrightarrow> q_normalize g = three (normalizeQuat (plain g))"
  using plain_q_normalize_three [of "plain g"]
  by (simp add: qnorm_plain) (metis three_plain)

lemma sqrt_25: "sqrt 25 = 5"
  using real_sqrt_abs [of 5] by simp

lemma sqrt_less_1: "sqrt (99978907 / 100000000) < 9999 / 10000"
proof -
  have "sqrt (99978907 / 100000000) < sqrt ((9999 / 10000)\<^sup>2)"
    by (simp add: power2_eq_square)
  then show ?thesis by simp
qed

lemma readme_sample_not_unit:
  "\<not> unit_within_tolerance (Quat 0.9981 0.0123 (- 0.0501) 0.0304)"
proof -
  have "qnorm (Quat 0.9981 0.0123 (- 0.0501) 0.0304) = sqrt (99978907 / 100000000)"
    by (simp add: qnorm_def power2_eq_square)
  then show ?thesis
    using sqrt_less_1 by (simp add: unit_within_tolerance_def)
qed

section \<open>The correction\<close>

text \<open>
  The renderer multiplies with the three.js formulas on \<open>(x, y, z, w)\<close>; read through
  \<open>plain\<close>, that product is the Hamilton product, and the logger's function is the
  renderer's on the other representation.
\<close>

lemma applyCalibration_plain:
  "plain (applyCalibration qr l qNow) =
     (case qr l of
        None \<Rightarrow> plain qNow
      | Some r \<Rightarrow> plain (q_normalize (three (hamilton (conjugate r) (plain qNow)))))"
proof (cases "qr l")
  case None
  then show ?thesis by (simp add: applyCalibration_def)
next
  case (Some r)
  have "q_multiply (three (conjugate r)) qNow = three (hamilton (conjugate r) (plain qNow))"
    using plain_q_multiply [of "three (conjugate r)" qNow]
    by (metis plain_three three_plain)
  then show ?thesis
    using Some by (simp add: applyCalibration_def Let_def conj_three)
qed

lemma applyCalibration_node_eq:
  "applyCalibration_node qr l q = plain (applyCalibration qr l (three q))"
proof (cases "qr l")
  case None
  then show ?thesis by (simp add: applyCalibration_node_def applyCalibration_def)
next
  case (Some r)
  then show ?thesis
    by (simp add: applyCalibration_node_def applyCalibration_def Let_def plain_def three_def)
qed

lemma q_length_applyCalibration:
  "qr l = Some r \<Longrightarrow> q_length (applyCalibration qr l qNow) = 1"
  by (simp add: applyCalibration_def Let_def q_length_q_normalize)

lemma qnorm_applyCalibration_node:
  "qr l = Some r \<Longrightarrow> qnorm (applyCalibration_node qr l q) = 1"
  by (simp add: applyCalibration_node_eq qnorm_plain q_length_applyCalibration)

lemma applyCalibration_zero_reference:
  "qr l = Some (Quat 0 0 0 0) \<Longrightarrow> applyCalibration qr l qNow = Quaternion 0 0 0 1"
  by (simp add: applyCalibration_def Let_def q_multiply_def q_normalize_def q_length_def)

section \<open>Calibration completion\<close>

text \<open>
  The loop that sums a buffer computes the component-wise sums, so \<open>average\<close> is the
  component-wise mean. An iteration of the completion loop changes the reference table at
  its own label only.
\<close>

lemma sum_samples_acc:
  "sum_samples qs s =
     Quat (qw s + sum_list (map qw qs)) (qx s + sum_list (map qx qs))
          (qy s + sum_list (map qy qs)) (qz s + sum_list (map qz qs))"
  by (induction qs arbitrary: s) (simp_all add: add.assoc)

lemma average_eq_mean: "average qs = componentwise_mean qs"
  by (simp add: average_def componentwise_mean_def sum_samples_acc Let_def)

lemma finish_label_other: "l \<noteq> k \<Longrightarrow> finish_label cd k qr l = qr l"
  by (auto simp: finish_label_def split: option.splits)

lemma finish_label_empty: "cd l = None \<or> cd l = Some [] \<Longrightarrow> finish_label cd k qr l = qr l"
  by (cases "k = l") (auto simp: finish_label_def split: option.splits)

lemma finish_label_self:
  "cd l = Some buf \<Longrightarrow> buf \<noteq> [] \<Longrightarrow>
   finish_label cd l qr l = Some (normalizeQuat (componentwise_mean buf))"
  by (simp add: finish_label_def average_eq_mean)

lemma fold_finish_notin: "l \<notin> set ks \<Longrightarrow> fold (finish_label cd) ks qr l = qr l"
  by (induction ks arbitrary: qr) (simp_all add: finish_label_other)

lemma fold_finish_empty:
  "cd l = None \<or> cd l = Some [] \<Longrightarrow> fold (finish_label cd) ks qr l = qr l"
  by (induction ks arbitrary: qr) (simp_all add: finish_label_empty)

lemma fold_finish_in:
  "l \<in> set ks \<Longrightarrow> cd l = Some buf \<Longrightarrow> buf \<noteq> [] \<Longrightarrow>
   fold (finish_label cd) ks qr l = Some (normalizeQuat (componentwise_mean buf))"
proof (induction ks arbitrary: qr)
  case Nil
  then show ?case by simp
next
  case (Cons k ks)
  show ?case
  proof (cases "l \<in> set ks")
    case True
    then show ?thesis using Cons by simp
  next
    case False
    then have "k = l" using Cons.prems(1) by simp
    then show ?thesis
      using False Cons.prems by (simp add: fold_finish_notin finish_label_self)
  qed
qed

lemma finish_label_node_other: "l \<noteq> k \<Longrightarrow> fst (finish_label_node cd k st) l = fst st l"
  by (auto simp: finish_label_node_def Let_def split: option.splits)

lemma finish_label_node_empty:
  "map_of cd l = None \<or> map_of cd l = Some [] \<Longrightarrow> fst (finish_label_node cd k st) l = fst st l"
  by (cases "k = l") (auto simp: finish_label_node_def Let_def split: option.splits)

lemma finish_label_node_self:
  "map_of cd l = Some buf \<Longrightarrow> buf \<noteq> [] \<Longrightarrow>
   fst (finish_label_node cd l st) l = Some (normalizeQuat_node (componentwise_mean buf))"
  by (simp add: finish_label_node_def average_eq_mean Let_def)

lemma fold_finish_node_notin:
  "l \<notin> set ks \<Longrightarrow> fst (fold (finish_label_node cd) ks st) l = fst st l"
  by (induction ks arbitrary: st) (simp_all add: finish_label_node_other)

lemma fold_finish_node_empty:
  "map_of cd l = None \<or> map_of cd l = Some [] \<Longrightarrow>
   fst (fold (finish_label_node cd) ks st) l = fst st l"
  by (induction ks arbitrary: st) (simp_all add: finish_label_node_empty)

lemma fold_finish_node_in:
  "l \<in> set ks \<Longrightarrow> map_of cd l = Some buf \<Longrightarrow> buf \<noteq> [] \<Longrightarrow>
   fst (fold (finish_label_node cd) ks st) l = Some (normalizeQuat_node (componentwise_mean buf))"
proof (induction ks arbitrary: st)
  case Nil
  then show ?case by simp
next
  case (Cons k ks)
  show ?case
  proof (cases "l \<in> set ks")
    case True
    then show ?thesis using Cons by simp
  next
    case False
    then have "k = l" using Cons.prems(1) by simp
    then show ?thesis
      using False Cons.prems by (simp add: fold_finish_node_notin finish_label_node_self)
  qed
qed

lemma map_of_key: "map_of cd l = Some buf \<Longrightarrow> l \<in> set (map fst cd)"
  by (metis map_of_eq_None_iff option.distinct(1) set_map)

lemma qRef_finishCalibration:
  "qRef (finishCalibration s) = fold (finish_label (calibrationData s)) (connected s) (qRef s)"
  by (simp add: finishCalibration_def)

lemma l_qRef_finishCalibration_node:
  "l_qRef (finishCalibration_node t) =
     fst (fold (finish_label_node (l_calibrationData t)) (map fst (l_calibrationData t))
       (l_qRef t, l_console t @ [Log ''Calibration complete!'']))"
  by (simp add: finishCalibration_node_def Let_def)

lemma normalizeQuat_identity_mean:
  "normalizeQuat (componentwise_mean [Quat 1 0 0 0, Quat 1 0 0 0]) = Quat 1 0 0 0"
  "normalizeQuat_node (componentwise_mean [Quat 1 0 0 0, Quat 1 0 0 0]) = Quat 1 0 0 0"
  by (simp_all add: componentwise_mean_def normalizeQuat_def normalizeQuat_node_def hypot_def)

lemma identity_trace_fields:
  "connected identity_trace = [''RA'']"
  "calibrationData identity_trace ''RA'' = Some [Quat 1 0 0 0, Quat 1 0 0 0]"
  by (simp_all add: identity_trace_def handleSensorMessage_def startCalibration_def
      ws_onopen_def initial_def Let_def)

lemma identity_trace_node_fields:
  "l_calibrationData identity_trace_node = [(''RA'', [Quat 1 0 0 0, Quat 1 0 0 0])]"
  by (simp add: identity_trace_node_def on_message_def startCalibration_node_def
      initial_node_def Let_def)

lemma mislabelled_trace_fields:
  "connected mislabelled_trace = [''RFA'']"
  "calibrationData mislabelled_trace ''RA'' = Some [Quat 1 0 0 0, Quat 1 0 0 0]"
  "qRef mislabelled_trace = Map.empty"
  by (simp_all add: mislabelled_trace_def handleSensorMessage_def startCalibration_def
      ws_onopen_def initial_def Let_def)

lemma fold_finish_node_console:
  "snd (fold (finish_label_node cd) ks st) =
     snd st @ concat (map (\<lambda>l. case map_of cd l of
         None \<Rightarrow> []
       | Some buf \<Rightarrow>
           if buf = [] then []
           else [LogQuat (''Reference for '' @ l) (normalizeQuat_node (componentwise_mean buf))]) ks)"
proof (induction ks arbitrary: st)
  case Nil
  then show ?case by simp
next
  case (Cons k ks)
  have "snd (finish_label_node cd k st) =
      snd st @ (case map_of cd k of
         None \<Rightarrow> []
       | Some buf \<Rightarrow>
           if buf = [] then []
           else [LogQuat (''Reference for '' @ k) (normalizeQuat_node (componentwise_mean buf))])"
    by (simp add: finish_label_node_def Let_def average_eq_mean split: option.splits)
  then show ?case
    by (simp add: Cons.IH)
qed

lemma l_console_finishCalibration_node:
  "l_console (finishCalibration_node t) =
     l_console t @ [Log ''Calibration complete!'']
     @ concat (map (\<lambda>l. case map_of (l_calibrationData t) l of
         None \<Rightarrow> []
       | Some buf \<Rightarrow>
           if buf = [] then []
           else [LogQuat (''Reference for '' @ l) (normalizeQuat_node (componentwise_mean buf))])
         (map fst (l_calibrationData t)))
     @ [Log ''T-Pose calibration applied. Logging CALIBRATED data now.'']"
  by (simp add: finishCalibration_node_def Let_def fold_finish_node_console)

lemma antipodal_trace_node_fields:
  "l_calibrationData antipodal_trace_node = [(''RA'', [Quat 1 0 0 0, Quat (- 1) 0 0 0])]"
  "l_console antipodal_trace_node = [Log ''Starting 30-second T-Pose calibration...'']"
  by (simp_all add: antipodal_trace_node_def on_message_def startCalibration_node_def
      initial_node_def Let_def)

lemma identity_trace_node_console:
  "l_console identity_trace_node = [Log ''Starting 30-second T-Pose calibration...'']"
  by (simp add: identity_trace_node_def on_message_def startCalibration_node_def
      initial_node_def Let_def)

section \<open>The retargeting pass\<close>

text \<open>
  A visit changes the pose table and the bone table at its own label only, and never
  removes or adds a pose entry. The order has no repetition and every parent stands before
  its children, so when a joint is visited its parent's entry is already what it will be
  when the pass ends.
\<close>

lemma parentLabel_entries:
  "(l, p) \<in> set parentLabel \<longleftrightarrow>
     (l, p) \<in> {(''HIPS'', None), (''SP'', Some ''HIPS''), (''SP2'', Some ''SP''),
       (''H'', Some ''SP2''), (''RA'', Some ''SP2''), (''RFA'', Some ''RA''),
       (''LA'', Some ''SP2''), (''LFA'', Some ''LA''), (''RUL'', Some ''HIPS''),
       (''RL'', Some ''RUL''), (''LUL'', Some ''HIPS''), (''LL'', Some ''LUL'')}"
  unfolding parentLabel_def by auto

lemma visit_order_distinct: "distinct visit_order"
  unfolding visit_order_def by simp

lemma visit_order_keys: "set visit_order = fst ` set parentLabel"
  unfolding visit_order_def parentLabel_def by simp

lemma parent_of_entry: "parent_of l = Some p \<Longrightarrow> (l, Some p) \<in> set parentLabel"
  by (auto simp: parent_of_def split: option.splits dest: map_of_SomeD)

lemma parent_before:
  assumes "parent_of l = Some p"
  shows "position p visit_order < position l visit_order"
proof -
  have "(l, Some p) \<in> set parentLabel"
    using assms by (rule parent_of_entry)
  then have "(l = ''SP'' \<and> p = ''HIPS'') \<or> (l = ''SP2'' \<and> p = ''SP'')
      \<or> (l = ''H'' \<and> p = ''SP2'') \<or> (l = ''RA'' \<and> p = ''SP2'')
      \<or> (l = ''RFA'' \<and> p = ''RA'') \<or> (l = ''LA'' \<and> p = ''SP2'')
      \<or> (l = ''LFA'' \<and> p = ''LA'') \<or> (l = ''RUL'' \<and> p = ''HIPS'')
      \<or> (l = ''RL'' \<and> p = ''RUL'') \<or> (l = ''LUL'' \<and> p = ''HIPS'')
      \<or> (l = ''LL'' \<and> p = ''LUL'')"
    unfolding parentLabel_entries by simp
  then show ?thesis
    by (elim disjE conjE) (simp_all add: visit_order_def)
qed

lemma parent_in_order: "parent_of l = Some p \<Longrightarrow> p \<in> set visit_order"
proof -
  assume "parent_of l = Some p"
  then have "(l, Some p) \<in> set parentLabel" by (rule parent_of_entry)
  then have "p = ''HIPS'' \<or> p = ''SP'' \<or> p = ''SP2'' \<or> p = ''RA'' \<or> p = ''LA''
      \<or> p = ''RUL'' \<or> p = ''LUL''"
    unfolding parentLabel_entries by auto
  then show ?thesis
    by (elim disjE) (simp_all add: visit_order_def)
qed

lemma parent_of_HIPS: "parent_of ''HIPS'' = None"
  by (simp add: parent_of_def parentLabel_def)

lemma visit_other:
  "l \<noteq> k \<Longrightarrow> fst (visit k st) l = fst st l \<and> snd (visit k st) l = snd st l"
  by (auto simp: visit_def Let_def split: option.splits)

lemma visit_present: "(fst (visit k st) l = None) = (fst st l = None)"
  by (auto simp: visit_def Let_def split: option.splits)

lemma visit_self:
  "snd st l = Some b \<Longrightarrow> fst st l = Some q \<Longrightarrow>
   visit l st =
     ((fst st)(l \<mapsto> q_normalize q),
      (snd st)(l \<mapsto> b\<lparr>quaternion := q_normalize (qFinal l b
         (localSensorQuat ((fst st)(l \<mapsto> q_normalize q)) l (q_normalize q)))\<rparr>))"
  by (simp add: visit_def Let_def)

lemma fold_visit_notin:
  "l \<notin> set ks \<Longrightarrow>
   fst (fold visit ks st) l = fst st l \<and> snd (fold visit ks st) l = snd st l"
  by (induction ks arbitrary: st) (simp_all add: visit_other)

lemma fold_visit_present: "(fst (fold visit ks st) l = None) = (fst st l = None)"
  by (induction ks arbitrary: st) (simp_all add: visit_present)

lemma fold_visit_no_bones: "snd st = Map.empty \<Longrightarrow> fold visit ks st = st"
  by (induction ks) (simp_all add: visit_def)

lemma localSensorQuat_cong:
  "(\<And>p. parent_of l = Some p \<Longrightarrow> sg p = sg' p) \<Longrightarrow>
   localSensorQuat sg l g = localSensorQuat sg' l g"
  by (simp add: localSensorQuat_def split: option.splits)

lemma localSensorQuat_parent:
  "parent_of l = Some p \<Longrightarrow> sg p = Some gp \<Longrightarrow>
   localSensorQuat sg l g = q_multiply (q_invert gp) g"
  by (simp add: localSensorQuat_def)

lemma localSensorQuat_own:
  "parent_of l = None \<or> (\<exists>p. parent_of l = Some p \<and> sg p = None) \<Longrightarrow>
   localSensorQuat sg l g = g"
  by (auto simp: localSensorQuat_def)

lemma position_notin: "p \<notin> set xs \<Longrightarrow> position p (xs @ zs) = length xs + position p zs"
  by (induction xs) auto

lemma position_before:
  assumes "l \<notin> set xs" and "position p (xs @ l # ys) < position l (xs @ l # ys)"
  shows "p \<in> set xs"
proof (rule ccontr)
  assume "p \<notin> set xs"
  then have "position p (xs @ l # ys) \<ge> length xs"
    by (simp add: position_notin)
  moreover have "position l (xs @ l # ys) = length xs"
    using assms(1) by (simp add: position_notin)
  ultimately show False using assms(2) by simp
qed

lemma fold_visit_at:
  assumes d: "distinct ks" and l: "l \<in> set ks"
    and b: "snd st l = Some b" and q: "fst st l = Some q"
    and par: "\<And>p. parent_of l = Some p \<Longrightarrow> position p ks < position l ks"
  shows "fst (fold visit ks st) l = Some (q_normalize q)
    \<and> snd (fold visit ks st) l =
        Some (b\<lparr>quaternion := q_normalize (qFinal l b
          (localSensorQuat (fst (fold visit ks st)) l (q_normalize q)))\<rparr>)"
proof -
  obtain xs ys where ks: "ks = xs @ l # ys"
    using l by (meson split_list)
  have nx: "l \<notin> set xs" and ny: "l \<notin> set ys" and dis: "set xs \<inter> set ys = {}"
    using d ks by auto
  define st1 where "st1 = fold visit xs st"
  define st2 where "st2 = visit l st1"
  have f: "fold visit ks st = fold visit ys st2"
    by (simp add: ks st1_def st2_def)
  have b1: "snd st1 l = Some b" and q1: "fst st1 l = Some q"
    using nx b q by (simp_all add: st1_def fold_visit_notin)
  have v: "st2 =
     ((fst st1)(l \<mapsto> q_normalize q),
      (snd st1)(l \<mapsto> b\<lparr>quaternion := q_normalize (qFinal l b
         (localSensorQuat ((fst st1)(l \<mapsto> q_normalize q)) l (q_normalize q)))\<rparr>))"
    unfolding st2_def using visit_self [OF b1 q1] .
  have same: "localSensorQuat ((fst st1)(l \<mapsto> q_normalize q)) l (q_normalize q)
      = localSensorQuat (fst (fold visit ys st2)) l (q_normalize q)"
  proof (rule localSensorQuat_cong)
    fix p assume p: "parent_of l = Some p"
    have "p \<in> set xs"
      using position_before [OF nx] par [OF p] ks by simp
    then have "p \<notin> set ys" using dis by auto
    then have "fst (fold visit ys st2) p = fst st2 p"
      by (simp add: fold_visit_notin)
    then show "((fst st1)(l \<mapsto> q_normalize q)) p = fst (fold visit ys st2) p"
      by (simp add: v)
  qed
  have "fst (fold visit ys st2) l = fst st2 l" and "snd (fold visit ys st2) l = snd st2 l"
    using ny by (simp_all add: fold_visit_notin)
  then have r1: "fst (fold visit ys st2) l = Some (q_normalize q)"
    and r2: "snd (fold visit ys st2) l =
        Some (b\<lparr>quaternion := q_normalize (qFinal l b
          (localSensorQuat ((fst st1)(l \<mapsto> q_normalize q)) l (q_normalize q)))\<rparr>)"
    by (simp_all add: v)
  show ?thesis
    unfolding f by (simp only: r1 r2 same [symmetric] simp_thms)
qed

lemma applySensorToBones_fields:
  "sensorGlobal (applySensorToBones s) = fst (fold visit visit_order (sensorGlobal s, boneMap s))"
  "boneMap (applySensorToBones s) = snd (fold visit visit_order (sensorGlobal s, boneMap s))"
  by (simp_all add: applySensorToBones_def Let_def)

lemma applySensorToBones_at:
  assumes "l \<in> set visit_order" and "boneMap s l = Some b" and "sensorGlobal s l = Some q"
  shows "sensorGlobal (applySensorToBones s) l = Some (q_normalize q)
    \<and> boneMap (applySensorToBones s) l =
        Some (b\<lparr>quaternion := q_normalize (qFinal l b
          (localSensorQuat (sensorGlobal (applySensorToBones s)) l (q_normalize q)))\<rparr>)"
proof -
  have b: "snd (sensorGlobal s, boneMap s) l = Some b"
    and q: "fst (sensorGlobal s, boneMap s) l = Some q"
    using assms by simp_all
  show ?thesis
    unfolding applySensorToBones_fields
    by (rule fold_visit_at [OF visit_order_distinct assms(1) b q parent_before])
qed

lemma applySensorToBones_present:
  "(sensorGlobal (applySensorToBones s) p = None) = (sensorGlobal s p = None)"
  by (simp add: applySensorToBones_fields fold_visit_present)

lemma pose_state_fields:
  "boneMap pose_state ''RFA'' =
     Some \<lparr>bindQuat = Quaternion 0 0 (3 / 5) (4 / 5), bindInv = Quaternion 0 0 (- 3 / 5) (4 / 5),
       quaternion = Quaternion 0 0 (3 / 5) (4 / 5)\<rparr>"
  "boneMap pose_state ''RA'' =
     Some \<lparr>bindQuat = Quaternion 0 0 0 1, bindInv = Quaternion 0 0 0 1,
       quaternion = Quaternion 0 0 0 1\<rparr>"
  "sensorGlobal pose_state ''RFA'' = Some (Quaternion 0 0 0 1)"
  "sensorGlobal pose_state ''RA'' = Some (Quaternion 0 0 (3 / 5) (4 / 5))"
  "boneMap pose_state ''HIPS'' =
     Some \<lparr>bindQuat = Quaternion 0 0 (3 / 5) (4 / 5), bindInv = Quaternion 0 0 (- 3 / 5) (4 / 5),
       quaternion = Quaternion 0 0 (3 / 5) (4 / 5)\<rparr>"
  "sensorGlobal pose_state ''HIPS'' = Some (Quaternion 0 0 0 1)"
  by (simp_all add: pose_state_def mapBone_def initial_def q_invert_def q_conjugate_def)

lemma q_length_pose:
  "q_length (Quaternion 0 0 (3 / 5) (4 / 5)) = 1"
  "q_length (Quaternion 0 0 0 1) = 1"
  "q_length (Quaternion 0 0 (- 24 / 25) (7 / 25)) = 1"
  by (simp_all add: q_length_def)

lemma visit_no_bone: "snd st p = None \<Longrightarrow> visit p st = st"
  by (simp add: visit_def)

lemma visit_bone_present: "(snd (visit k st) p = None) = (snd st p = None)"
  by (auto simp: visit_def Let_def split: option.splits)

lemma fold_visit_no_bone:
  "snd st p = None \<Longrightarrow> fst (fold visit ks st) p = fst st p"
proof (induction ks arbitrary: st)
  case Nil
  then show ?case by simp
next
  case (Cons k ks)
  have n: "snd (visit k st) p = None"
    using Cons.prems by (simp add: visit_bone_present)
  have "fst (visit k st) p = fst st p"
  proof (cases "p = k")
    case True
    then show ?thesis using Cons.prems by (simp add: visit_no_bone)
  next
    case False
    then show ?thesis by (simp add: visit_other)
  qed
  then show ?case using Cons.IH [OF n] by simp
qed

lemma applySensorToBones_table:
  "sensorGlobal (applySensorToBones s) p =
     (if p \<in> set visit_order \<and> boneMap s p \<noteq> None
      then map_option q_normalize (sensorGlobal s p) else sensorGlobal s p)"
proof (cases "p \<in> set visit_order \<and> boneMap s p \<noteq> None")
  case True
  then obtain b where b: "boneMap s p = Some b" by auto
  show ?thesis
  proof (cases "sensorGlobal s p")
    case None
    then have "sensorGlobal (applySensorToBones s) p = None"
      by (simp add: applySensorToBones_present)
    then show ?thesis using None True by simp
  next
    case (Some g)
    then show ?thesis
      using True applySensorToBones_at [of p s b g] b by simp
  qed
next
  case False
  then have "sensorGlobal (applySensorToBones s) p = sensorGlobal s p"
    unfolding applySensorToBones_fields
    using fold_visit_notin [of p visit_order "(sensorGlobal s, boneMap s)"]
      fold_visit_no_bone [of "(sensorGlobal s, boneMap s)" p visit_order]
    by auto
  then show ?thesis using False by auto
qed

lemma applySensorToBones_unit_table:
  assumes "\<forall>p g0. sensorGlobal s p = Some g0 \<longrightarrow> q_length g0 = 1"
  shows "sensorGlobal (applySensorToBones s) = sensorGlobal s"
proof
  fix p
  show "sensorGlobal (applySensorToBones s) p = sensorGlobal s p"
  proof (cases "sensorGlobal s p")
    case None
    then show ?thesis by (simp add: applySensorToBones_table)
  next
    case (Some g0)
    then have "q_normalize g0 = g0"
      using assms by (simp add: q_normalize_unit)
    then show ?thesis using Some by (simp add: applySensorToBones_table)
  qed
qed

lemma applySensorToBones_other_fields:
  "csvRows (applySensorToBones s) = csvRows s"
  "qRef (applySensorToBones s) = qRef s"
  "calibrationData (applySensorToBones s) = calibrationData s"
  "console (applySensorToBones s) = console s"
  by (simp_all add: applySensorToBones_def Let_def)

lemma csvRows_handleSensorMessage:
  assumes "\<not> isCalibrating s" and "calibrated s" and "l \<noteq> []"
  shows "csvRows (handleSensorMessage label (Data (Some l) cnt (Some [w, x, y, z])) now s) =
     csvRows s @ [Row l (tw (applyCalibration (qRef s) l (Quaternion x y z w)))
        (tx (applyCalibration (qRef s) l (Quaternion x y z w)))
        (ty (applyCalibration (qRef s) l (Quaternion x y z w)))
        (tz (applyCalibration (qRef s) l (Quaternion x y z w))) now]"
  using assms
  by (simp add: handleSensorMessage_def Let_def applySensorToBones_other_fields)

lemma l_file_on_message:
  assumes "\<not> l_isCalibrating t" and "l_calibrated t"
  shows "l_file (on_message (Data (Some l) cnt (Some [w, x, y, z])) t) =
     l_file t @ [FileRow cnt l (qw (applyCalibration_node (l_qRef t) l (Quat w x y z)))
        (qx (applyCalibration_node (l_qRef t) l (Quat w x y z)))
        (qy (applyCalibration_node (l_qRef t) l (Quat w x y z)))
        (qz (applyCalibration_node (l_qRef t) l (Quat w x y z)))]"
  using assms by (simp add: on_message_def Let_def)

lemma plain_components: "Quat (tw q) (tx q) (ty q) (tz q) = plain q"
  by (simp add: plain_def)

lemma identity_trace_finished:
  "\<not> isCalibrating (finishCalibration identity_trace)"
  "calibrated (finishCalibration identity_trace)"
  "qRef (finishCalibration identity_trace) ''RA'' = Some (Quat 1 0 0 0)"
  by (simp_all add: qRef_finishCalibration identity_trace_fields finish_label_def average_eq_mean
      normalizeQuat_identity_mean)
    (simp_all add: finishCalibration_def)

lemma identity_trace_node_finished:
  "\<not> l_isCalibrating (finishCalibration_node identity_trace_node)"
  "l_calibrated (finishCalibration_node identity_trace_node)"
  "l_qRef (finishCalibration_node identity_trace_node) ''RA'' = Some (Quat 1 0 0 0)"
  by (simp_all add: l_qRef_finishCalibration_node identity_trace_node_fields finish_label_node_def
      average_eq_mean normalizeQuat_identity_mean Let_def)
    (simp_all add: finishCalibration_node_def Let_def)

section \<open>The claims\<close>

subsection \<open>Calibration completion writes the references\<close>

text \<open>
  C1 (amended). When the calibration timer expires, the logger sets \<open>qRef[label]\<close>, for every
  label whose buffer is non-empty, to the normalization of the component-wise mean of the
  buffered samples; the renderer does so for every label of its \<open>connected\<close> list whose
  buffer is non-empty. For every other label (an empty or missing buffer; in the renderer
  also a label that is not in \<open>connected\<close>) the entry of the reference table is left as it
  was, so it stays absent when it was absent.
\<close>

theorem finishCalibration_reference:
  "(l \<in> set (connected s) \<and> calibrationData s l = Some buf \<and> buf \<noteq> [] \<longrightarrow>
      qRef (finishCalibration s) l = Some (normalizeQuat (componentwise_mean buf)))
   \<and> (l \<notin> set (connected s) \<or> calibrationData s l = None \<or> calibrationData s l = Some [] \<longrightarrow>
      qRef (finishCalibration s) l = qRef s l)
   \<and> (map_of (l_calibrationData t) l = Some buf \<and> buf \<noteq> [] \<longrightarrow>
      l_qRef (finishCalibration_node t) l = Some (normalizeQuat_node (componentwise_mean buf)))
   \<and> (map_of (l_calibrationData t) l = None \<or> map_of (l_calibrationData t) l = Some [] \<longrightarrow>
      l_qRef (finishCalibration_node t) l = l_qRef t l)"
proof -
  have a: "l \<in> set (connected s) \<and> calibrationData s l = Some buf \<and> buf \<noteq> [] \<longrightarrow>
      qRef (finishCalibration s) l = Some (normalizeQuat (componentwise_mean buf))"
    by (simp add: qRef_finishCalibration fold_finish_in)
  have b: "l \<notin> set (connected s) \<or> calibrationData s l = None \<or> calibrationData s l = Some [] \<longrightarrow>
      qRef (finishCalibration s) l = qRef s l"
    unfolding qRef_finishCalibration
    using fold_finish_notin [of l "connected s"] fold_finish_empty [of "calibrationData s" l]
    by auto
  have c: "map_of (l_calibrationData t) l = Some buf \<and> buf \<noteq> [] \<longrightarrow>
      l_qRef (finishCalibration_node t) l = Some (normalizeQuat_node (componentwise_mean buf))"
  proof
    assume h: "map_of (l_calibrationData t) l = Some buf \<and> buf \<noteq> []"
    then have "l \<in> set (map fst (l_calibrationData t))"
      using map_of_key [of "l_calibrationData t" l buf] by simp
    then show "l_qRef (finishCalibration_node t) l = Some (normalizeQuat_node (componentwise_mean buf))"
      unfolding l_qRef_finishCalibration_node using h by (simp add: fold_finish_node_in)
  qed
  have d: "map_of (l_calibrationData t) l = None \<or> map_of (l_calibrationData t) l = Some [] \<longrightarrow>
      l_qRef (finishCalibration_node t) l = l_qRef t l"
    unfolding l_qRef_finishCalibration_node
    using fold_finish_node_empty [of "l_calibrationData t" l] by auto
  from a b c d show ?thesis by blast
qed

text \<open>
  The samples \<open>[{1,0,0,0}, {1,0,0,0}]\<close> for RA, collected by two messages after the RA socket
  has opened, give the reference \<open>{1,0,0,0}\<close> in both programs; LA, which has no buffer, gets
  none.
\<close>

theorem finishCalibration_reference_witness:
  "''RA'' \<in> set (connected identity_trace)
   \<and> calibrationData identity_trace ''RA'' = Some [Quat 1 0 0 0, Quat 1 0 0 0]
   \<and> qRef (finishCalibration identity_trace) ''RA'' = Some (Quat 1 0 0 0)
   \<and> calibrationData identity_trace ''LA'' = None
   \<and> qRef (finishCalibration identity_trace) ''LA'' = None
   \<and> map_of (l_calibrationData identity_trace_node) ''RA'' = Some [Quat 1 0 0 0, Quat 1 0 0 0]
   \<and> l_qRef (finishCalibration_node identity_trace_node) ''RA'' = Some (Quat 1 0 0 0)
   \<and> l_qRef (finishCalibration_node identity_trace_node) ''LA'' = None"
proof -
  have la: "calibrationData identity_trace ''LA'' = None" "qRef identity_trace ''LA'' = None"
    by (simp_all add: identity_trace_def handleSensorMessage_def startCalibration_def
        ws_onopen_def initial_def Let_def)
  have ln: "l_qRef identity_trace_node ''LA'' = None"
    by (simp add: identity_trace_node_def on_message_def startCalibration_node_def
        initial_node_def Let_def)
  show ?thesis
    using finishCalibration_reference [where l = "''RA''" and s = identity_trace
        and buf = "[Quat 1 0 0 0, Quat 1 0 0 0]" and t = identity_trace_node]
      finishCalibration_reference [where l = "''LA''" and s = identity_trace
        and buf = "[]" and t = identity_trace_node]
    by (simp add: identity_trace_fields identity_trace_node_fields normalizeQuat_identity_mean
        la ln)
qed

text \<open>
  As the claim is written, for every label with a non-empty buffer, it fails in the
  renderer: the socket opened for RFA delivers two samples whose payload label is RA. The
  buffer of RA then holds both samples, \<open>connected\<close> holds RFA only, and completion writes no
  reference for RA.
\<close>

theorem finishCalibration_reference_counterexample:
  "connected mislabelled_trace = [''RFA'']
   \<and> calibrationData mislabelled_trace ''RA'' = Some [Quat 1 0 0 0, Quat 1 0 0 0]
   \<and> qRef (finishCalibration mislabelled_trace) ''RA'' = None"
  by (simp add: mislabelled_trace_fields qRef_finishCalibration finish_label_def
      split: option.splits)

subsection \<open>The correction\<close>

text \<open>
  C2 (amended). Without a reference for the label, \<open>applyCalibration\<close> returns \<open>qNow\<close>
  unchanged. With a reference \<open>r\<close>, let \<open>P\<close> be the Hamilton product of the conjugate of \<open>r\<close>
  with \<open>qNow\<close>: the result is \<open>normalizeQuat P\<close> when \<open>P\<close> is not the zero quaternion, and the
  identity quaternion \<open>{w:1, x:0, y:0, z:0}\<close> when it is (the three.js \<open>normalize()\<close> that the
  code calls maps length zero to the identity). This holds in the renderer, read through
  \<open>plain\<close>, and in the logger.
\<close>

theorem applyCalibration_correct:
  "(qr l = None \<longrightarrow>
      applyCalibration qr l qNow = qNow \<and> applyCalibration_node qr l q = q)
   \<and> (qr l = Some r \<longrightarrow>
      plain (applyCalibration qr l qNow) =
        (if hamilton (conjugate r) (plain qNow) = Quat 0 0 0 0 then identity
         else normalizeQuat (hamilton (conjugate r) (plain qNow)))
      \<and> applyCalibration_node qr l q =
        (if hamilton (conjugate r) q = Quat 0 0 0 0 then identity
         else normalizeQuat_node (hamilton (conjugate r) q)))"
proof -
  have a: "qr l = None \<longrightarrow> applyCalibration qr l qNow = qNow \<and> applyCalibration_node qr l q = q"
    by (simp add: applyCalibration_def applyCalibration_node_def)
  have b: "qr l = Some r \<longrightarrow>
      plain (applyCalibration qr l qNow) =
        (if hamilton (conjugate r) (plain qNow) = Quat 0 0 0 0 then identity
         else normalizeQuat (hamilton (conjugate r) (plain qNow)))"
    by (simp add: applyCalibration_plain plain_q_normalize_three qnorm_eq_0_iff)
  have n: "normalizeQuat_node (hamilton (conjugate r) q) = normalizeQuat (hamilton (conjugate r) q)"
    by (simp add: normalizeQuat_unfold normalizeQuat_node_unfold)
  have c: "qr l = Some r \<longrightarrow>
      applyCalibration_node qr l q =
        (if hamilton (conjugate r) q = Quat 0 0 0 0 then identity
         else normalizeQuat_node (hamilton (conjugate r) q))"
    unfolding n
    by (simp add: applyCalibration_node_eq applyCalibration_plain plain_q_normalize_three
        qnorm_eq_0_iff)
  from a b c show ?thesis by blast
qed

text \<open>
  Without a reference the sample \<open>w = 3, y = 4\<close> comes back as it is; with the reference
  \<open>x = 1\<close> the product is \<open>x = -3, z = -4\<close>, of norm 5.
\<close>

theorem applyCalibration_correct_witness:
  "applyCalibration Map.empty ''RA'' (Quaternion 0 4 0 3) = Quaternion 0 4 0 3
   \<and> applyCalibration_node Map.empty ''RA'' (Quat 3 0 4 0) = Quat 3 0 4 0
   \<and> hamilton (conjugate (Quat 0 1 0 0)) (Quat 3 0 4 0) = Quat 0 (- 3) 0 (- 4)
   \<and> plain (applyCalibration [''RA'' \<mapsto> Quat 0 1 0 0] ''RA'' (Quaternion 0 4 0 3))
       = Quat 0 (- 3 / 5) 0 (- 4 / 5)
   \<and> applyCalibration_node [''RA'' \<mapsto> Quat 0 1 0 0] ''RA'' (Quat 3 0 4 0)
       = Quat 0 (- 3 / 5) 0 (- 4 / 5)"
proof -
  have h: "hamilton (conjugate (Quat 0 1 0 0)) (Quat 3 0 4 0) = Quat 0 (- 3) 0 (- 4)"
    by (simp add: hamilton_def conjugate_def)
  have n: "normalizeQuat (Quat 0 (- 3) 0 (- 4)) = Quat 0 (- 3 / 5) 0 (- 4 / 5)"
    "normalizeQuat_node (Quat 0 (- 3) 0 (- 4)) = Quat 0 (- 3 / 5) 0 (- 4 / 5)"
    by (simp_all add: normalizeQuat_def normalizeQuat_node_def hypot_def sqrt_25)
  have p: "plain (Quaternion 0 4 0 3) = Quat 3 0 4 0"
    by (simp add: plain_def)
  show ?thesis
    using applyCalibration_correct [of Map.empty "''RA''" "Quaternion 0 4 0 3" "Quat 3 0 4 0" "Quat 0 1 0 0"]
      applyCalibration_correct [of "[''RA'' \<mapsto> Quat 0 1 0 0]" "''RA''" "Quaternion 0 4 0 3"
        "Quat 3 0 4 0" "Quat 0 1 0 0"] n
    by (simp add: h p)
qed

text \<open>
  With \<open>normalize\<close> read as the normalization of the specification, which returns a
  quaternion of norm zero unchanged, the claim fails for the sample \<open>[0, 0, 0, 0]\<close>: the
  product with the conjugate of the reference is zero and its normalization is zero, but
  the correction returns \<open>{w:1, x:0, y:0, z:0}\<close>, in the renderer and in the logger.
\<close>

theorem applyCalibration_correct_counterexample:
  "hamilton (conjugate (Quat 0 1 0 0)) (Quat 0 0 0 0) = Quat 0 0 0 0
   \<and> normalizeQuat (Quat 0 0 0 0) = Quat 0 0 0 0
   \<and> plain (applyCalibration [''RA'' \<mapsto> Quat 0 1 0 0] ''RA'' (three (Quat 0 0 0 0))) = Quat 1 0 0 0
   \<and> applyCalibration_node [''RA'' \<mapsto> Quat 0 1 0 0] ''RA'' (Quat 0 0 0 0) = Quat 1 0 0 0
   \<and> plain (applyCalibration [''RA'' \<mapsto> Quat 0 1 0 0] ''RA'' (three (Quat 0 0 0 0)))
       \<noteq> normalizeQuat (hamilton (conjugate (Quat 0 1 0 0)) (Quat 0 0 0 0))"
  by (simp add: applyCalibration_def applyCalibration_node_def Let_def q_multiply_def three_def
      q_normalize_def q_length_def plain_def normalizeQuat_def hypot_def hamilton_def
      conjugate_def)

subsection \<open>The written rotation\<close>

text \<open>
  C3. In a retargeting pass, take a joint of the visiting order that has a mapped bone \<open>b\<close>
  and a global pose \<open>q\<close>. The pass normalizes the joint's entry of the pose table in place;
  in terms of the table as the pass holds it (and leaves it), the parent-relative rotation
  is \<open>invert(GlobalPose[parent]) * GlobalPose[label]\<close> when the joint has a parent whose pose
  is present, and \<open>GlobalPose[label]\<close> otherwise. The rotation written to the bone is the
  normalization of \<open>bindQuat * parentLocal * boneOffset\<close> for HIPS and of
  \<open>bindInv * parentLocal * boneOffset\<close> for every other joint; the normalization is the
  three.js \<open>normalize()\<close>, and it is \<open>normalizeQuat\<close> of that product whenever the bone's bind
  rotations are not zero and the parent's bone is mapped. The table that the pass
  leaves is the given one with the entry of every joint of the order that has a mapped bone
  normalized, so on a table of unit quaternions it is the given table. \<open>invert\<close> (the
  conjugate) is the inverse of the parent's entry whenever the parent's bone is mapped,
  since the pass has normalized that entry.
\<close>

theorem applySensorToBones_rotation:
  assumes "l \<in> set visit_order" and "boneMap s l = Some b" and "sensorGlobal s l = Some q"
  shows "sensorGlobal (applySensorToBones s) l = Some (q_normalize q)
    \<and> (\<forall>p gp. parent_of l = Some p \<and> sensorGlobal (applySensorToBones s) p = Some gp \<longrightarrow>
          localSensorQuat (sensorGlobal (applySensorToBones s)) l (q_normalize q)
            = q_multiply (q_invert gp) (q_normalize q))
    \<and> (parent_of l = None
          \<or> (\<exists>p. parent_of l = Some p \<and> sensorGlobal (applySensorToBones s) p = None) \<longrightarrow>
          localSensorQuat (sensorGlobal (applySensorToBones s)) l (q_normalize q) = q_normalize q)
    \<and> boneMap (applySensorToBones s) l =
          Some (b\<lparr>quaternion := q_normalize (q_multiply (q_multiply
            (if l = ''HIPS'' then bindQuat b else bindInv b)
            (localSensorQuat (sensorGlobal (applySensorToBones s)) l (q_normalize q)))
            (boneOffset l))\<rparr>)
    \<and> (\<forall>p. sensorGlobal (applySensorToBones s) p =
          (if p \<in> set visit_order \<and> boneMap s p \<noteq> None
           then map_option q_normalize (sensorGlobal s p) else sensorGlobal s p))
    \<and> ((\<forall>p g0. sensorGlobal s p = Some g0 \<longrightarrow> q_length g0 = 1) \<longrightarrow>
          sensorGlobal (applySensorToBones s) = sensorGlobal s)
    \<and> (\<forall>p gp. parent_of l = Some p \<and> sensorGlobal (applySensorToBones s) p = Some gp
          \<and> boneMap s p \<noteq> None \<longrightarrow> q_multiply (q_invert gp) gp = q_identity)
    \<and> (q_length (bindQuat b) \<noteq> 0 \<and> q_length (bindInv b) \<noteq> 0
          \<and> (\<forall>p. parent_of l = Some p \<longrightarrow> boneMap s p \<noteq> None) \<longrightarrow>
          boneMap (applySensorToBones s) l =
            Some (b\<lparr>quaternion := three (normalizeQuat (plain (q_multiply (q_multiply
              (if l = ''HIPS'' then bindQuat b else bindInv b)
              (localSensorQuat (sensorGlobal (applySensorToBones s)) l (q_normalize q)))
              (boneOffset l))))\<rparr>))"
proof -
  note at = applySensorToBones_at [OF assms]
  have c1: "sensorGlobal (applySensorToBones s) l = Some (q_normalize q)"
    using at by simp
  have c2: "\<forall>p gp. parent_of l = Some p \<and> sensorGlobal (applySensorToBones s) p = Some gp \<longrightarrow>
          localSensorQuat (sensorGlobal (applySensorToBones s)) l (q_normalize q)
            = q_multiply (q_invert gp) (q_normalize q)"
    by (simp add: localSensorQuat_parent)
  have c3: "parent_of l = None
          \<or> (\<exists>p. parent_of l = Some p \<and> sensorGlobal (applySensorToBones s) p = None) \<longrightarrow>
          localSensorQuat (sensorGlobal (applySensorToBones s)) l (q_normalize q) = q_normalize q"
    using localSensorQuat_own by blast
  have c4: "boneMap (applySensorToBones s) l =
          Some (b\<lparr>quaternion := q_normalize (q_multiply (q_multiply
            (if l = ''HIPS'' then bindQuat b else bindInv b)
            (localSensorQuat (sensorGlobal (applySensorToBones s)) l (q_normalize q)))
            (boneOffset l))\<rparr>)"
    using at by (simp add: qFinal_def)
  have c5: "\<forall>p. sensorGlobal (applySensorToBones s) p =
          (if p \<in> set visit_order \<and> boneMap s p \<noteq> None
           then map_option q_normalize (sensorGlobal s p) else sensorGlobal s p)"
    using applySensorToBones_table by blast
  have c6: "\<forall>p gp. parent_of l = Some p \<and> sensorGlobal (applySensorToBones s) p = Some gp
          \<and> boneMap s p \<noteq> None \<longrightarrow> q_multiply (q_invert gp) gp = q_identity"
  proof (intro allI impI)
    fix p gp
    assume h: "parent_of l = Some p \<and> sensorGlobal (applySensorToBones s) p = Some gp
          \<and> boneMap s p \<noteq> None"
    then obtain bp where bp: "boneMap s p = Some bp" by auto
    have "sensorGlobal s p \<noteq> None"
      using h applySensorToBones_present [of s p] by simp
    then obtain g0 where g0: "sensorGlobal s p = Some g0" by auto
    have "p \<in> set visit_order" using h parent_in_order by blast
    then have "sensorGlobal (applySensorToBones s) p = Some (q_normalize g0)"
      using applySensorToBones_at [OF _ bp g0] by simp
    then have "gp = q_normalize g0" using h by simp
    then show "q_multiply (q_invert gp) gp = q_identity"
      by (simp add: q_invert_unit q_length_q_normalize)
  qed
  have c7: "(\<forall>p g0. sensorGlobal s p = Some g0 \<longrightarrow> q_length g0 = 1) \<longrightarrow>
          sensorGlobal (applySensorToBones s) = sensorGlobal s"
    using applySensorToBones_unit_table by blast
  have c8: "q_length (bindQuat b) \<noteq> 0 \<and> q_length (bindInv b) \<noteq> 0
          \<and> (\<forall>p. parent_of l = Some p \<longrightarrow> boneMap s p \<noteq> None) \<longrightarrow>
          boneMap (applySensorToBones s) l =
            Some (b\<lparr>quaternion := three (normalizeQuat (plain (q_multiply (q_multiply
              (if l = ''HIPS'' then bindQuat b else bindInv b)
              (localSensorQuat (sensorGlobal (applySensorToBones s)) l (q_normalize q)))
              (boneOffset l))))\<rparr>)"
  proof
    assume h: "q_length (bindQuat b) \<noteq> 0 \<and> q_length (bindInv b) \<noteq> 0
          \<and> (\<forall>p. parent_of l = Some p \<longrightarrow> boneMap s p \<noteq> None)"
    have u: "q_length (localSensorQuat (sensorGlobal (applySensorToBones s)) l (q_normalize q)) = 1"
    proof (cases "parent_of l")
      case None
      then show ?thesis by (simp add: localSensorQuat_def q_length_q_normalize)
    next
      case (Some p)
      show ?thesis
      proof (cases "sensorGlobal (applySensorToBones s) p")
        case None
        then show ?thesis using Some by (simp add: localSensorQuat_def q_length_q_normalize)
      next
        case (Some gp)
        have "boneMap s p \<noteq> None" using h \<open>parent_of l = Some p\<close> by simp
        then have "q_multiply (q_invert gp) gp = q_identity"
          using c6 \<open>parent_of l = Some p\<close> Some by blast
        then have "q_length (q_invert gp) * q_length gp = 1"
          using q_length_q_multiply [of "q_invert gp" gp] by (simp add: q_identity_def q_length_def)
        moreover have "q_length (q_invert gp) = q_length gp"
          by (simp add: q_invert_def q_conjugate_def q_length_def)
        ultimately have "q_length gp * q_length gp = 1" by simp
        moreover have "0 \<le> q_length gp" by (simp add: q_length_def)
        ultimately have "q_length gp = 1"
          by (metis abs_of_nonneg power2_eq_square real_sqrt_abs real_sqrt_one)
        then show ?thesis
          using Some \<open>parent_of l = Some p\<close> \<open>q_length (q_invert gp) = q_length gp\<close>
          by (simp add: localSensorQuat_def q_length_q_multiply q_length_q_normalize)
      qed
    qed
    have "q_length (q_multiply (q_multiply
              (if l = ''HIPS'' then bindQuat b else bindInv b)
              (localSensorQuat (sensorGlobal (applySensorToBones s)) l (q_normalize q)))
              (boneOffset l)) \<noteq> 0"
      using h u by (simp add: q_length_q_multiply boneOffset_def) (simp add: q_length_def)
    then show "boneMap (applySensorToBones s) l =
            Some (b\<lparr>quaternion := three (normalizeQuat (plain (q_multiply (q_multiply
              (if l = ''HIPS'' then bindQuat b else bindInv b)
              (localSensorQuat (sensorGlobal (applySensorToBones s)) l (q_normalize q)))
              (boneOffset l))))\<rparr>)"
      using c4 q_normalize_eq_normalizeQuat by simp
  qed
  from c1 c2 c3 c4 c5 c6 c7 c8 show ?thesis by blast
qed

text \<open>
  RA is turned about the z axis (\<open>z = 3/5, w = 4/5\<close>), RFA and HIPS report the identity, and
  the bind rotation of RFA and of HIPS is that same turn. The parent-relative rotation of
  RFA is the inverse of RA's rotation, and the bone of RFA gets the inverse bind rotation
  times it; HIPS, the root, keeps its own pose as the parent-relative rotation, and its
  bone gets the bind rotation times it.
\<close>

theorem applySensorToBones_rotation_witness:
  "''RFA'' \<in> set visit_order
   \<and> parent_of ''RFA'' = Some ''RA''
   \<and> sensorGlobal pose_state ''RFA'' = Some (Quaternion 0 0 0 1)
   \<and> sensorGlobal (applySensorToBones pose_state) ''RA'' = Some (Quaternion 0 0 (3 / 5) (4 / 5))
   \<and> sensorGlobal (applySensorToBones pose_state) ''RFA'' = Some (Quaternion 0 0 0 1)
   \<and> localSensorQuat (sensorGlobal (applySensorToBones pose_state)) ''RFA'' (Quaternion 0 0 0 1)
       = Quaternion 0 0 (- 3 / 5) (4 / 5)
   \<and> boneMap (applySensorToBones pose_state) ''RFA'' =
       Some \<lparr>bindQuat = Quaternion 0 0 (3 / 5) (4 / 5),
         bindInv = Quaternion 0 0 (- 3 / 5) (4 / 5),
         quaternion = Quaternion 0 0 (- 24 / 25) (7 / 25)\<rparr>
   \<and> ''HIPS'' \<in> set visit_order
   \<and> parent_of ''HIPS'' = None
   \<and> localSensorQuat (sensorGlobal (applySensorToBones pose_state)) ''HIPS'' (Quaternion 0 0 0 1)
       = Quaternion 0 0 0 1
   \<and> boneMap (applySensorToBones pose_state) ''HIPS'' =
       Some \<lparr>bindQuat = Quaternion 0 0 (3 / 5) (4 / 5),
         bindInv = Quaternion 0 0 (- 3 / 5) (4 / 5),
         quaternion = Quaternion 0 0 (3 / 5) (4 / 5)\<rparr>"
proof -
  have o: "''RFA'' \<in> set visit_order" "''RA'' \<in> set visit_order" "''HIPS'' \<in> set visit_order"
    by (simp_all add: visit_order_def)
  have p: "parent_of ''RFA'' = Some ''RA''"
    by (simp add: parent_of_def parentLabel_def)
  have ra: "sensorGlobal (applySensorToBones pose_state) ''RA'' = Some (Quaternion 0 0 (3 / 5) (4 / 5))"
    using applySensorToBones_at [OF o(2) pose_state_fields(2) pose_state_fields(4)]
    by (simp add: q_normalize_unit q_length_pose)
  have m: "q_multiply (q_invert (Quaternion 0 0 (3 / 5) (4 / 5))) (Quaternion 0 0 0 1)
      = Quaternion 0 0 (- 3 / 5) (4 / 5)"
    by (simp add: q_multiply_def q_invert_def q_conjugate_def)
  have n: "q_multiply (q_multiply (Quaternion 0 0 (- 3 / 5) (4 / 5))
      (Quaternion 0 0 (- 3 / 5) (4 / 5))) (boneOffset ''RFA'') = Quaternion 0 0 (- 24 / 25) (7 / 25)"
    by (simp add: q_multiply_def boneOffset_def)
  have h: "q_multiply (q_multiply (Quaternion 0 0 (3 / 5) (4 / 5)) (Quaternion 0 0 0 1))
      (boneOffset ''HIPS'') = Quaternion 0 0 (3 / 5) (4 / 5)"
    by (simp add: q_multiply_def boneOffset_def)
  have u: "q_normalize (Quaternion 0 0 0 1) = Quaternion 0 0 0 1"
    by (simp add: q_normalize_unit q_length_pose)
  note r = applySensorToBones_rotation [OF o(1) pose_state_fields(1) pose_state_fields(3)]
  have r1: "sensorGlobal (applySensorToBones pose_state) ''RFA'' = Some (Quaternion 0 0 0 1)"
    using r [THEN conjunct1] by (simp add: u)
  have r2: "localSensorQuat (sensorGlobal (applySensorToBones pose_state)) ''RFA'' (Quaternion 0 0 0 1)
       = Quaternion 0 0 (- 3 / 5) (4 / 5)"
    using r [THEN conjunct2, THEN conjunct1, rule_format, of "''RA''" "Quaternion 0 0 (3 / 5) (4 / 5)"]
      p ra m by (simp add: u)
  have r4: "boneMap (applySensorToBones pose_state) ''RFA'' =
       Some \<lparr>bindQuat = Quaternion 0 0 (3 / 5) (4 / 5),
         bindInv = Quaternion 0 0 (- 3 / 5) (4 / 5),
         quaternion = Quaternion 0 0 (- 24 / 25) (7 / 25)\<rparr>"
    using r [THEN conjunct2, THEN conjunct2, THEN conjunct2, THEN conjunct1] n q_length_pose(3)
    by (simp add: u r2 q_normalize_unit)
  note k = applySensorToBones_rotation [OF o(3) pose_state_fields(5) pose_state_fields(6)]
  have k3: "localSensorQuat (sensorGlobal (applySensorToBones pose_state)) ''HIPS'' (Quaternion 0 0 0 1)
       = Quaternion 0 0 0 1"
    using k [THEN conjunct2, THEN conjunct2, THEN conjunct1] parent_of_HIPS by (simp add: u)
  have k4: "boneMap (applySensorToBones pose_state) ''HIPS'' =
       Some \<lparr>bindQuat = Quaternion 0 0 (3 / 5) (4 / 5),
         bindInv = Quaternion 0 0 (- 3 / 5) (4 / 5),
         quaternion = Quaternion 0 0 (3 / 5) (4 / 5)\<rparr>"
    using k [THEN conjunct2, THEN conjunct2, THEN conjunct2, THEN conjunct1] h q_length_pose(1)
    by (simp add: u k3 q_normalize_unit)
  show ?thesis
    using r1 r2 r4 k3 k4 o p ra parent_of_HIPS by (simp add: pose_state_fields)
qed

subsection \<open>Antipodal samples\<close>

text \<open>
  C4 (amended). Calibration completion has no guard for antipodal samples and does not align
  the samples to one hemisphere: when the component-wise mean of a label's non-empty buffer
  is the zero quaternion, the reference stored for the label is the zero quaternion itself
  (\<open>normalizeQuat\<close> returns a quaternion of norm zero unchanged). This holds in the logger for
  every label, and in the renderer for every label of \<open>connected\<close>.
\<close>

theorem finishCalibration_antipodal:
  "(l \<in> set (connected s) \<and> calibrationData s l = Some buf \<and> buf \<noteq> []
      \<and> componentwise_mean buf = Quat 0 0 0 0 \<longrightarrow>
      qRef (finishCalibration s) l = Some (Quat 0 0 0 0))
   \<and> (map_of (l_calibrationData t) l = Some buf \<and> buf \<noteq> []
      \<and> componentwise_mean buf = Quat 0 0 0 0 \<longrightarrow>
      l_qRef (finishCalibration_node t) l = Some (Quat 0 0 0 0))"
proof -
  have a: "l \<in> set (connected s) \<and> calibrationData s l = Some buf \<and> buf \<noteq> []
      \<and> componentwise_mean buf = Quat 0 0 0 0 \<longrightarrow>
      qRef (finishCalibration s) l = Some (Quat 0 0 0 0)"
    by (simp add: qRef_finishCalibration fold_finish_in normalizeQuat_zero)
  have b: "map_of (l_calibrationData t) l = Some buf \<and> buf \<noteq> []
      \<and> componentwise_mean buf = Quat 0 0 0 0 \<longrightarrow>
      l_qRef (finishCalibration_node t) l = Some (Quat 0 0 0 0)"
  proof
    assume h: "map_of (l_calibrationData t) l = Some buf \<and> buf \<noteq> []
      \<and> componentwise_mean buf = Quat 0 0 0 0"
    then have "l \<in> set (map fst (l_calibrationData t))"
      using map_of_key [of "l_calibrationData t" l buf] by simp
    then show "l_qRef (finishCalibration_node t) l = Some (Quat 0 0 0 0)"
      unfolding l_qRef_finishCalibration_node
      using h by (simp add: fold_finish_node_in normalizeQuat_zero)
  qed
  from a b show ?thesis by blast
qed

text \<open>
  The buffer \<open>[{1,0,0,0}, {-1,0,0,0}]\<close> of LA has the mean zero, and zero is stored.
\<close>

theorem finishCalibration_antipodal_witness:
  "''LA'' \<in> set (connected antipodal_state)
   \<and> calibrationData antipodal_state ''LA'' = Some [Quat 1 0 0 0, Quat (- 1) 0 0 0]
   \<and> componentwise_mean [Quat 1 0 0 0, Quat (- 1) 0 0 0] = Quat 0 0 0 0
   \<and> qRef (finishCalibration antipodal_state) ''LA'' = Some (Quat 0 0 0 0)
   \<and> l_qRef (finishCalibration_node
        (initial_node\<lparr>l_calibrationData := [(''LA'', [Quat 1 0 0 0, Quat (- 1) 0 0 0])]\<rparr>)) ''LA''
       = Some (Quat 0 0 0 0)"
  using finishCalibration_antipodal [where l = "''LA''" and s = antipodal_state
      and buf = "[Quat 1 0 0 0, Quat (- 1) 0 0 0]"
      and t = "initial_node\<lparr>l_calibrationData := [(''LA'', [Quat 1 0 0 0, Quat (- 1) 0 0 0])]\<rparr>"]
  by (simp add: antipodal_state_def initial_def componentwise_mean_def)

text \<open>
  The claim that the degenerate case is detected and guarded fails: after the two messages
  \<open>[1,0,0,0]\<close> and \<open>[-1,0,0,0]\<close> for RA, completion stores the quaternion of norm zero as
  \<open>qRef[RA]\<close>, in the renderer and in the logger.
\<close>

theorem finishCalibration_antipodal_counterexample:
  "calibrationData antipodal_trace ''RA'' = Some [Quat 1 0 0 0, Quat (- 1) 0 0 0]
   \<and> qRef (finishCalibration antipodal_trace) ''RA'' = Some (Quat 0 0 0 0)
   \<and> l_calibrationData antipodal_trace_node = [(''RA'', [Quat 1 0 0 0, Quat (- 1) 0 0 0])]
   \<and> l_qRef (finishCalibration_node antipodal_trace_node) ''RA'' = Some (Quat 0 0 0 0)
   \<and> qnorm (Quat 0 0 0 0) = 0"
proof -
  have r: "connected antipodal_trace = [''RA'']"
    "calibrationData antipodal_trace ''RA'' = Some [Quat 1 0 0 0, Quat (- 1) 0 0 0]"
    by (simp_all add: antipodal_trace_def handleSensorMessage_def startCalibration_def
        ws_onopen_def initial_def Let_def)
  have n: "l_calibrationData antipodal_trace_node = [(''RA'', [Quat 1 0 0 0, Quat (- 1) 0 0 0])]"
    by (simp add: antipodal_trace_node_def on_message_def startCalibration_node_def
        initial_node_def Let_def)
  have a: "average [Quat 1 0 0 0, Quat (- 1) 0 0 0] = Quat 0 0 0 0"
    by (simp add: average_def)
  have "qRef (finishCalibration antipodal_trace) ''RA'' = Some (Quat 0 0 0 0)"
    by (simp add: qRef_finishCalibration r finish_label_def a normalizeQuat_zero)
  moreover have "l_qRef (finishCalibration_node antipodal_trace_node) ''RA'' = Some (Quat 0 0 0 0)"
    by (simp add: l_qRef_finishCalibration_node n finish_label_node_def a normalizeQuat_zero Let_def)
  ultimately show ?thesis
    using r n by (simp add: qnorm_def)
qed

subsection \<open>Unit norm\<close>

text \<open>
  C5 (amended). These quaternions have unit norm (exactly, in real arithmetic): what
  \<open>applyCalibration\<close> returns for a label that has a reference; a reference that completion
  computes from a non-empty buffer whose mean is not the zero quaternion; and, for a joint
  of the visiting order with a mapped bone and a pose, the rotation that the retargeting
  pass writes to the bone and the pose entry it leaves. So the row that the calibrated
  renderer appends to its CSV rows, and the row that the calibrated logger writes to its
  file, have unit norm when the label has a reference. A sample for a label without a
  reference is stored and emitted as it was received.
\<close>

theorem stored_quaternions_unit:
  "(qr l = Some r \<longrightarrow>
      q_length (applyCalibration qr l qNow) = 1 \<and> qnorm (applyCalibration_node qr l q) = 1)
   \<and> (l \<in> set (connected s) \<and> calibrationData s l = Some buf \<and> buf \<noteq> []
        \<and> componentwise_mean buf \<noteq> Quat 0 0 0 0 \<longrightarrow>
      (\<exists>r'. qRef (finishCalibration s) l = Some r' \<and> qnorm r' = 1))
   \<and> (map_of (l_calibrationData t) l = Some buf \<and> buf \<noteq> []
        \<and> componentwise_mean buf \<noteq> Quat 0 0 0 0 \<longrightarrow>
      (\<exists>r'. l_qRef (finishCalibration_node t) l = Some r' \<and> qnorm r' = 1))
   \<and> (l \<in> set visit_order \<and> boneMap s l = Some b \<and> sensorGlobal s l = Some g \<longrightarrow>
      (\<exists>b' g'. boneMap (applySensorToBones s) l = Some b' \<and> q_length (quaternion b') = 1
         \<and> sensorGlobal (applySensorToBones s) l = Some g' \<and> q_length g' = 1))
   \<and> (\<not> isCalibrating s \<and> calibrated s \<and> l \<noteq> [] \<and> qRef s l = Some r \<longrightarrow>
      (\<exists>cw cx cy cz.
         csvRows (handleSensorMessage label (Data (Some l) cnt (Some [w, x, y, z])) now s)
           = csvRows s @ [Row l cw cx cy cz now]
         \<and> qnorm (Quat cw cx cy cz) = 1))
   \<and> (\<not> l_isCalibrating t \<and> l_calibrated t \<and> l_qRef t l = Some r \<longrightarrow>
      (\<exists>cw cx cy cz.
         l_file (on_message (Data (Some l) cnt (Some [w, x, y, z])) t)
           = l_file t @ [FileRow cnt l cw cx cy cz]
         \<and> qnorm (Quat cw cx cy cz) = 1))"
proof -
  have a: "qr l = Some r \<longrightarrow>
      q_length (applyCalibration qr l qNow) = 1 \<and> qnorm (applyCalibration_node qr l q) = 1"
    by (simp add: q_length_applyCalibration qnorm_applyCalibration_node)
  have b: "l \<in> set (connected s) \<and> calibrationData s l = Some buf \<and> buf \<noteq> []
        \<and> componentwise_mean buf \<noteq> Quat 0 0 0 0 \<longrightarrow>
      (\<exists>r'. qRef (finishCalibration s) l = Some r' \<and> qnorm r' = 1)"
    by (simp add: qRef_finishCalibration fold_finish_in qnorm_normalizeQuat qnorm_eq_0_iff)
  have c: "map_of (l_calibrationData t) l = Some buf \<and> buf \<noteq> []
        \<and> componentwise_mean buf \<noteq> Quat 0 0 0 0 \<longrightarrow>
      (\<exists>r'. l_qRef (finishCalibration_node t) l = Some r' \<and> qnorm r' = 1)"
  proof
    assume h: "map_of (l_calibrationData t) l = Some buf \<and> buf \<noteq> []
        \<and> componentwise_mean buf \<noteq> Quat 0 0 0 0"
    then have "l \<in> set (map fst (l_calibrationData t))"
      using map_of_key [of "l_calibrationData t" l buf] by simp
    then have "l_qRef (finishCalibration_node t) l = Some (normalizeQuat_node (componentwise_mean buf))"
      unfolding l_qRef_finishCalibration_node using h by (simp add: fold_finish_node_in)
    then show "\<exists>r'. l_qRef (finishCalibration_node t) l = Some r' \<and> qnorm r' = 1"
      using h by (simp add: qnorm_normalizeQuat_node qnorm_eq_0_iff)
  qed
  have d: "l \<in> set visit_order \<and> boneMap s l = Some b \<and> sensorGlobal s l = Some g \<longrightarrow>
      (\<exists>b' g'. boneMap (applySensorToBones s) l = Some b' \<and> q_length (quaternion b') = 1
         \<and> sensorGlobal (applySensorToBones s) l = Some g' \<and> q_length g' = 1)"
  proof
    assume h: "l \<in> set visit_order \<and> boneMap s l = Some b \<and> sensorGlobal s l = Some g"
    then have "sensorGlobal (applySensorToBones s) l = Some (q_normalize g)
      \<and> boneMap (applySensorToBones s) l =
        Some (b\<lparr>quaternion := q_normalize (qFinal l b
          (localSensorQuat (sensorGlobal (applySensorToBones s)) l (q_normalize g)))\<rparr>)"
      using applySensorToBones_at [of l s b g] by simp
    then show "\<exists>b' g'. boneMap (applySensorToBones s) l = Some b' \<and> q_length (quaternion b') = 1
         \<and> sensorGlobal (applySensorToBones s) l = Some g' \<and> q_length g' = 1"
      by (simp add: q_length_q_normalize)
  qed
  have e: "\<not> isCalibrating s \<and> calibrated s \<and> l \<noteq> [] \<and> qRef s l = Some r \<longrightarrow>
      (\<exists>cw cx cy cz.
         csvRows (handleSensorMessage label (Data (Some l) cnt (Some [w, x, y, z])) now s)
           = csvRows s @ [Row l cw cx cy cz now]
         \<and> qnorm (Quat cw cx cy cz) = 1)"
  proof
    assume h: "\<not> isCalibrating s \<and> calibrated s \<and> l \<noteq> [] \<and> qRef s l = Some r"
    define c where "c = applyCalibration (qRef s) l (Quaternion x y z w)"
    have "csvRows (handleSensorMessage label (Data (Some l) cnt (Some [w, x, y, z])) now s)
        = csvRows s @ [Row l (tw c) (tx c) (ty c) (tz c) now]"
      using h csvRows_handleSensorMessage [of s l label cnt w x y z now] by (simp add: c_def)
    moreover have "qnorm (Quat (tw c) (tx c) (ty c) (tz c)) = 1"
      using h by (simp add: plain_components qnorm_plain c_def q_length_applyCalibration)
    ultimately show "\<exists>cw cx cy cz.
         csvRows (handleSensorMessage label (Data (Some l) cnt (Some [w, x, y, z])) now s)
           = csvRows s @ [Row l cw cx cy cz now]
         \<and> qnorm (Quat cw cx cy cz) = 1"
      by blast
  qed
  have f: "\<not> l_isCalibrating t \<and> l_calibrated t \<and> l_qRef t l = Some r \<longrightarrow>
      (\<exists>cw cx cy cz.
         l_file (on_message (Data (Some l) cnt (Some [w, x, y, z])) t)
           = l_file t @ [FileRow cnt l cw cx cy cz]
         \<and> qnorm (Quat cw cx cy cz) = 1)"
  proof
    assume h: "\<not> l_isCalibrating t \<and> l_calibrated t \<and> l_qRef t l = Some r"
    define c where "c = applyCalibration_node (l_qRef t) l (Quat w x y z)"
    have "l_file (on_message (Data (Some l) cnt (Some [w, x, y, z])) t)
        = l_file t @ [FileRow cnt l (qw c) (qx c) (qy c) (qz c)]"
      using h l_file_on_message [of t l cnt w x y z] by (simp add: c_def)
    moreover have "qnorm (Quat (qw c) (qx c) (qy c) (qz c)) = 1"
      using h by (simp add: c_def qnorm_applyCalibration_node)
    ultimately show "\<exists>cw cx cy cz.
         l_file (on_message (Data (Some l) cnt (Some [w, x, y, z])) t)
           = l_file t @ [FileRow cnt l cw cx cy cz]
         \<and> qnorm (Quat cw cx cy cz) = 1"
      by blast
  qed
  from a b c d e f show ?thesis by blast
qed

text \<open>
  The parts at concrete inputs: a correction with the reference \<open>x = 1\<close>, the reference
  computed from two identity samples in both programs, the bone and pose of RA after a
  pass, and the rows written for the sample \<open>[3, 0, 4, 0]\<close> after that calibration.
\<close>

theorem stored_quaternions_unit_witness:
  "[''RA'' \<mapsto> Quat 0 1 0 0] ''RA'' = Some (Quat 0 1 0 0)
   \<and> q_length (applyCalibration [''RA'' \<mapsto> Quat 0 1 0 0] ''RA'' (Quaternion 0 4 0 3)) = 1
   \<and> qnorm (applyCalibration_node [''RA'' \<mapsto> Quat 0 1 0 0] ''RA'' (Quat 3 0 4 0)) = 1
   \<and> ''RA'' \<in> set (connected identity_trace)
   \<and> calibrationData identity_trace ''RA'' = Some [Quat 1 0 0 0, Quat 1 0 0 0]
   \<and> componentwise_mean [Quat 1 0 0 0, Quat 1 0 0 0] = Quat 1 0 0 0
   \<and> (\<exists>r'. qRef (finishCalibration identity_trace) ''RA'' = Some r' \<and> qnorm r' = 1)
   \<and> (\<exists>r'. l_qRef (finishCalibration_node identity_trace_node) ''RA'' = Some r' \<and> qnorm r' = 1)
   \<and> ''RA'' \<in> set visit_order
   \<and> (\<exists>b' g'. boneMap (applySensorToBones pose_state) ''RA'' = Some b'
        \<and> q_length (quaternion b') = 1
        \<and> sensorGlobal (applySensorToBones pose_state) ''RA'' = Some g' \<and> q_length g' = 1)
   \<and> calibrated (finishCalibration identity_trace)
   \<and> qRef (finishCalibration identity_trace) ''RA'' = Some (Quat 1 0 0 0)
   \<and> (\<exists>cw cx cy cz.
        csvRows (handleSensorMessage ''RA'' (Data (Some ''RA'') 3 (Some [3, 0, 4, 0])) 70
          (finishCalibration identity_trace))
          = csvRows (finishCalibration identity_trace) @ [Row ''RA'' cw cx cy cz 70]
        \<and> qnorm (Quat cw cx cy cz) = 1)
   \<and> (\<exists>cw cx cy cz.
        l_file (on_message (Data (Some ''RA'') 3 (Some [3, 0, 4, 0]))
          (finishCalibration_node identity_trace_node))
          = l_file (finishCalibration_node identity_trace_node) @ [FileRow 3 ''RA'' cw cx cy cz]
        \<and> qnorm (Quat cw cx cy cz) = 1)"
proof -
  have m: "componentwise_mean [Quat 1 0 0 0, Quat 1 0 0 0] = Quat 1 0 0 0"
    by (simp add: componentwise_mean_def)
  have o: "''RA'' \<in> set visit_order" by (simp add: visit_order_def)
  show ?thesis
    using stored_quaternions_unit [where qr = "[''RA'' \<mapsto> Quat 0 1 0 0]" and l = "''RA''"
        and r = "Quat 0 1 0 0" and qNow = "Quaternion 0 4 0 3" and q = "Quat 3 0 4 0"
        and s = identity_trace and buf = "[Quat 1 0 0 0, Quat 1 0 0 0]"
        and t = identity_trace_node
        and b = "\<lparr>bindQuat = Quaternion 0 0 0 1, bindInv = Quaternion 0 0 0 1,
            quaternion = Quaternion 0 0 0 1\<rparr>"
        and g = "Quaternion 0 0 (3 / 5) (4 / 5)"]
      stored_quaternions_unit [where qr = "[''RA'' \<mapsto> Quat 0 1 0 0]" and l = "''RA''"
        and r = "Quat 0 1 0 0" and qNow = "Quaternion 0 4 0 3" and q = "Quat 3 0 4 0"
        and s = pose_state and buf = "[Quat 1 0 0 0, Quat 1 0 0 0]"
        and t = identity_trace_node
        and b = "\<lparr>bindQuat = Quaternion 0 0 0 1, bindInv = Quaternion 0 0 0 1,
            quaternion = Quaternion 0 0 0 1\<rparr>"
        and g = "Quaternion 0 0 (3 / 5) (4 / 5)"]
      stored_quaternions_unit [where l = "''RA''" and r = "Quat 1 0 0 0"
        and s = "finishCalibration identity_trace"
        and t = "finishCalibration_node identity_trace_node"
        and label = "''RA''" and cnt = 3 and w = 3 and x = 0 and y = 4 and z = 0 and now = 70]
    by (simp add: m o identity_trace_fields identity_trace_node_fields pose_state_fields
        identity_trace_finished identity_trace_node_finished)
qed

text \<open>
  The claim for every stored or emitted quaternion fails on the pass-through path. After a
  calibration that collected no sample, the payload
  \<open>[0.9981, 0.0123, -0.0501, 0.0304]\<close> for RA is appended to the CSV rows and stored in the
  pose table as received, and the logger writes it to its file before any calibration; its
  norm is below 0.9999, outside the tolerance of \<open>10\<^sup>-\<^sup>6\<close>.
\<close>

theorem stored_quaternions_unit_counterexample:
  "calibrated (finishCalibration (startCalibration (ws_onopen ''RA'' initial)))
   \<and> csvRows passthrough_trace = [Header, Row ''RA'' 0.9981 0.0123 (- 0.0501) 0.0304 1000]
   \<and> sensorGlobal passthrough_trace ''RA'' = Some (three (Quat 0.9981 0.0123 (- 0.0501) 0.0304))
   \<and> l_file passthrough_trace_node = [FileRow 123 ''RA'' 0.9981 0.0123 (- 0.0501) 0.0304]
   \<and> \<not> unit_within_tolerance (Quat 0.9981 0.0123 (- 0.0501) 0.0304)"
proof -
  define s0 where "s0 = finishCalibration (startCalibration (ws_onopen ''RA'' initial))"
  have f: "calibrated s0" "\<not> isCalibrating s0" "qRef s0 = Map.empty" "boneMap s0 = Map.empty"
    "csvRows s0 = [Header]" "sensorGlobal s0 = Map.empty"
    by (simp_all add: s0_def finishCalibration_def startCalibration_def ws_onopen_def
        initial_def finish_label_def)
  have e: "passthrough_trace = handleSensorMessage ''RA''
       (Data (Some ''RA'') 123 (Some [0.9981, 0.0123, - 0.0501, 0.0304])) 1000 s0"
    by (simp add: passthrough_trace_def s0_def)
  have "csvRows passthrough_trace = [Header, Row ''RA'' 0.9981 0.0123 (- 0.0501) 0.0304 1000]
    \<and> sensorGlobal passthrough_trace ''RA'' = Some (three (Quat 0.9981 0.0123 (- 0.0501) 0.0304))"
    unfolding e
    using f by (simp add: handleSensorMessage_def Let_def applyCalibration_def
        applySensorToBones_def fold_visit_no_bones three_def)
  moreover have "l_file passthrough_trace_node = [FileRow 123 ''RA'' 0.9981 0.0123 (- 0.0501) 0.0304]"
    by (simp add: passthrough_trace_node_def on_message_def initial_node_def Let_def)
  ultimately show ?thesis
    using f(1) readme_sample_not_unit by (simp add: s0_def)
qed

subsection \<open>The visiting order is topological\<close>

text \<open>
  C6. The order of the retargeting pass is topological for the parent table: a label with a
  parent stands in the order, and its parent stands strictly before it; the only label of
  the table with a null parent is HIPS, and HIPS stands first. The order lists every label
  of the table once.
\<close>

theorem visit_order_topological:
  "((l, Some p) \<in> set parentLabel \<longrightarrow>
      l \<in> set visit_order \<and> p \<in> set visit_order \<and>
      position p visit_order < position l visit_order)
   \<and> ((l, None) \<in> set parentLabel \<longrightarrow> l = ''HIPS'')
   \<and> (''HIPS'', None) \<in> set parentLabel
   \<and> position ''HIPS'' visit_order = 0
   \<and> hd visit_order = ''HIPS''
   \<and> distinct visit_order
   \<and> set visit_order = fst ` set parentLabel"
proof -
  have a: "(l, Some p) \<in> set parentLabel \<longrightarrow>
      l \<in> set visit_order \<and> p \<in> set visit_order \<and>
      position p visit_order < position l visit_order"
    unfolding parentLabel_entries by (auto simp: visit_order_def)
  have b: "(l, None) \<in> set parentLabel \<longrightarrow> l = ''HIPS''"
    unfolding parentLabel_entries by auto
  have c: "(''HIPS'', None) \<in> set parentLabel"
    unfolding parentLabel_entries by simp
  have d: "position ''HIPS'' visit_order = 0 \<and> hd visit_order = ''HIPS''"
    by (simp add: visit_order_def)
  from a b c d visit_order_distinct visit_order_keys show ?thesis by blast
qed

text \<open>
  RFA has the parent RA, at positions 5 and 4 of the order.
\<close>

theorem visit_order_topological_witness:
  "(''RFA'', Some ''RA'') \<in> set parentLabel
   \<and> position ''RA'' visit_order = 4 \<and> position ''RFA'' visit_order = 5
   \<and> position ''RA'' visit_order < position ''RFA'' visit_order
   \<and> (''HIPS'', None) \<in> set parentLabel"
  using visit_order_topological [of "''RFA''" "''RA''"]
  by (simp add: parentLabel_def visit_order_def)

subsection \<open>Normalization of a quaternion of norm zero\<close>

text \<open>
  C7 (amended). For a quaternion of norm zero \<open>normalizeQuat\<close> returns its argument
  unchanged, and for a norm above zero it divides every component by the norm, in the
  renderer and in the logger; the function is total, so it raises no error. No anomaly is
  signalled: the function writes nothing, and calibration completion, which is its only
  caller, emits nothing about a norm. The renderer's completion emits one log line and one
  alert, the same whatever the buffers hold. The logger's completion emits its opening
  line, then for each key with a non-empty buffer, in order, one line \<open>Reference for\<close> with
  the label and the reference it stored, then its closing line, and nothing else.
\<close>

theorem normalizeQuat_zero_norm:
  "(qnorm q = 0 \<longrightarrow> normalizeQuat q = q \<and> normalizeQuat_node q = q)
   \<and> (qnorm q > 0 \<longrightarrow>
        normalizeQuat q = Quat (qw q / qnorm q) (qx q / qnorm q) (qy q / qnorm q) (qz q / qnorm q)
        \<and> normalizeQuat_node q = normalizeQuat q)
   \<and> console (finishCalibration s) =
        console s @ [Log ''T-Pose calibration done!'', Alert ''T-Pose calibration completed!'']
   \<and> l_console (finishCalibration_node t) =
        l_console t @ [Log ''Calibration complete!'']
        @ concat (map (\<lambda>l. case map_of (l_calibrationData t) l of
            None \<Rightarrow> []
          | Some buf \<Rightarrow>
              if buf = [] then []
              else [LogQuat (''Reference for '' @ l) (normalizeQuat_node (componentwise_mean buf))])
            (map fst (l_calibrationData t)))
        @ [Log ''T-Pose calibration applied. Logging CALIBRATED data now.'']"
proof -
  have a: "(qnorm q = 0 \<longrightarrow> normalizeQuat q = q \<and> normalizeQuat_node q = q)
   \<and> (qnorm q > 0 \<longrightarrow>
        normalizeQuat q = Quat (qw q / qnorm q) (qx q / qnorm q) (qy q / qnorm q) (qz q / qnorm q)
        \<and> normalizeQuat_node q = normalizeQuat q)"
    by (simp add: normalizeQuat_unfold normalizeQuat_node_unfold)
  have b: "console (finishCalibration s) =
        console s @ [Log ''T-Pose calibration done!'', Alert ''T-Pose calibration completed!'']"
    by (simp add: finishCalibration_def)
  from a b l_console_finishCalibration_node [of t] show ?thesis by simp
qed

text \<open>
  The zero quaternion comes back unchanged, and \<open>w = 3, y = 4\<close>, of norm 5, is divided by
  5; after two identity samples for RA the renderer emits its line and alert, and the
  logger its opening line, the reference of RA and its closing line.
\<close>

theorem normalizeQuat_zero_norm_witness:
  "qnorm (Quat 0 0 0 0) = 0 \<and> normalizeQuat (Quat 0 0 0 0) = Quat 0 0 0 0
   \<and> normalizeQuat_node (Quat 0 0 0 0) = Quat 0 0 0 0
   \<and> qnorm (Quat 3 0 4 0) = 5 \<and> normalizeQuat (Quat 3 0 4 0) = Quat (3 / 5) 0 (4 / 5) 0
   \<and> console (finishCalibration identity_trace) =
        console identity_trace
        @ [Log ''T-Pose calibration done!'', Alert ''T-Pose calibration completed!'']
   \<and> l_console (finishCalibration_node identity_trace_node) =
        [Log ''Starting 30-second T-Pose calibration...'', Log ''Calibration complete!'',
         LogQuat ''Reference for RA'' (Quat 1 0 0 0),
         Log ''T-Pose calibration applied. Logging CALIBRATED data now.'']"
proof -
  have z: "qnorm (Quat 0 0 0 0) = 0" by (simp add: qnorm_def)
  have n: "qnorm (Quat 3 0 4 0) = 5" by (simp add: qnorm_def sqrt_25)
  show ?thesis
    using normalizeQuat_zero_norm [of "Quat 0 0 0 0" identity_trace identity_trace_node]
      normalizeQuat_zero_norm [of "Quat 3 0 4 0" identity_trace identity_trace_node] z n
    by (simp add: identity_trace_node_fields identity_trace_node_console
        normalizeQuat_identity_mean)
qed

text \<open>
  That an anomaly is signalled fails. In the renderer the buffer of LA averages to the zero
  quaternion, \<open>normalizeQuat\<close> returns it unchanged into \<open>qRef[LA]\<close>, and all that the
  completion emits is its usual log line and alert. In the logger the buffer of RA averages
  to zero, zero is stored, and the console holds the start line, the opening line, the line
  \<open>Reference for RA\<close> with the zero quaternion, and the closing line.
\<close>

theorem normalizeQuat_zero_norm_counterexample:
  "average [Quat 1 0 0 0, Quat (- 1) 0 0 0] = Quat 0 0 0 0
   \<and> qRef (finishCalibration antipodal_state) ''LA'' = Some (normalizeQuat (Quat 0 0 0 0))
   \<and> normalizeQuat (Quat 0 0 0 0) = Quat 0 0 0 0
   \<and> console (finishCalibration antipodal_state) =
        [Log ''T-Pose calibration done!'', Alert ''T-Pose calibration completed!'']
   \<and> l_qRef (finishCalibration_node antipodal_trace_node) ''RA''
        = Some (normalizeQuat_node (Quat 0 0 0 0))
   \<and> normalizeQuat_node (Quat 0 0 0 0) = Quat 0 0 0 0
   \<and> l_console (finishCalibration_node antipodal_trace_node) =
        [Log ''Starting 30-second T-Pose calibration...'', Log ''Calibration complete!'',
         LogQuat ''Reference for RA'' (Quat 0 0 0 0),
         Log ''T-Pose calibration applied. Logging CALIBRATED data now.'']"
proof -
  have r: "average [Quat 1 0 0 0, Quat (- 1) 0 0 0] = Quat 0 0 0 0
   \<and> qRef (finishCalibration antipodal_state) ''LA'' = Some (normalizeQuat (Quat 0 0 0 0))
   \<and> normalizeQuat (Quat 0 0 0 0) = Quat 0 0 0 0
   \<and> console (finishCalibration antipodal_state) =
        [Log ''T-Pose calibration done!'', Alert ''T-Pose calibration completed!'']"
    by (simp add: finishCalibration_def antipodal_state_def initial_def finish_label_def
        average_def normalizeQuat_def hypot_def)
  have m: "componentwise_mean [Quat 1 0 0 0, Quat (- 1) 0 0 0] = Quat 0 0 0 0"
    by (simp add: componentwise_mean_def)
  have q: "l_qRef (finishCalibration_node antipodal_trace_node) ''RA''
        = Some (normalizeQuat_node (Quat 0 0 0 0))"
    by (simp add: l_qRef_finishCalibration_node antipodal_trace_node_fields
        finish_label_node_def average_eq_mean m Let_def)
  have c: "l_console (finishCalibration_node antipodal_trace_node) =
        [Log ''Starting 30-second T-Pose calibration...'', Log ''Calibration complete!'',
         LogQuat ''Reference for RA'' (Quat 0 0 0 0),
         Log ''T-Pose calibration applied. Logging CALIBRATED data now.'']"
    by (simp add: l_console_finishCalibration_node antipodal_trace_node_fields m
        normalizeQuat_zero)
  from r q c show ?thesis by (simp add: normalizeQuat_zero)
qed

subsection \<open>The identity reference\<close>

text \<open>
  C8 (amended). For a label whose reference is the identity \<open>{w:1, x:0, y:0, z:0}\<close>, the
  correction of \<open>q\<close> equals \<open>normalizeQuat q\<close> for every \<open>q\<close> other than the zero quaternion; for
  the zero quaternion the correction returns the identity quaternion, where \<open>normalizeQuat\<close>
  returns zero.
\<close>

theorem applyCalibration_identity_reference:
  assumes "qr l = Some identity"
  shows "plain (applyCalibration qr l (three q)) = (if q = Quat 0 0 0 0 then identity else normalizeQuat q)
    \<and> applyCalibration_node qr l q = (if q = Quat 0 0 0 0 then identity else normalizeQuat_node q)"
proof -
  have "plain (applyCalibration qr l (three q)) = plain (q_normalize (three q))"
    using assms by (simp add: applyCalibration_plain hamilton_conjugate_identity)
  then have a: "plain (applyCalibration qr l (three q)) =
      (if q = Quat 0 0 0 0 then identity else normalizeQuat q)"
    by (simp add: plain_q_normalize_three qnorm_eq_0_iff)
  have b: "normalizeQuat_node q = normalizeQuat q"
    by (simp add: normalizeQuat_unfold normalizeQuat_node_unfold)
  from a b show ?thesis
    by (simp add: applyCalibration_node_eq)
qed

text \<open>
  With the identity reference, \<open>w = 3, y = 4\<close> is corrected to \<open>w = 3/5, y = 4/5\<close>, and the
  zero quaternion to the identity.
\<close>

theorem applyCalibration_identity_reference_witness:
  "plain (applyCalibration [''RA'' \<mapsto> identity] ''RA'' (three (Quat 3 0 4 0))) = Quat (3 / 5) 0 (4 / 5) 0
   \<and> applyCalibration_node [''RA'' \<mapsto> identity] ''RA'' (Quat 0 0 0 0) = Quat 1 0 0 0"
proof -
  have n: "qnorm (Quat 3 0 4 0) = 5"
    using real_sqrt_abs [of 5] by (simp add: qnorm_def)
  have r: "[''RA'' \<mapsto> identity] ''RA'' = Some identity" by simp
  show ?thesis
    using applyCalibration_identity_reference [of "[''RA'' \<mapsto> identity]" "''RA''" "Quat 3 0 4 0"]
      applyCalibration_identity_reference [of "[''RA'' \<mapsto> identity]" "''RA''" "Quat 0 0 0 0"] r
    by (simp add: normalizeQuat_unfold n identity_def)
qed

text \<open>
  For arbitrary \<open>q\<close> the claim fails at the zero quaternion: the correction returns
  \<open>{w:1, x:0, y:0, z:0}\<close> and \<open>normalizeQuat\<close> returns \<open>{w:0, x:0, y:0, z:0}\<close>.
\<close>

theorem applyCalibration_identity_reference_counterexample:
  "plain (applyCalibration [''RA'' \<mapsto> identity] ''RA'' (three (Quat 0 0 0 0))) = Quat 1 0 0 0
   \<and> normalizeQuat (Quat 0 0 0 0) = Quat 0 0 0 0
   \<and> plain (applyCalibration [''RA'' \<mapsto> identity] ''RA'' (three (Quat 0 0 0 0)))
       \<noteq> normalizeQuat (Quat 0 0 0 0)"
  by (simp add: applyCalibration_def identity_def Let_def q_multiply_def three_def
      q_normalize_def q_length_def plain_def normalizeQuat_def hypot_def)

subsection \<open>The logger against the renderer\<close>

text \<open>
  C9. The logger's \<open>normalizeQuat\<close> and \<open>applyCalibration\<close> compute the same results as the
  renderer's, for every quaternion and every reference table: the two guards on the norm
  agree because a norm is never negative, and the two corrections agree through the
  conversions between the plain object and the three.js object.
\<close>

theorem logger_refines_renderer:
  "normalizeQuat_node q = normalizeQuat q
   \<and> applyCalibration_node qr l q = plain (applyCalibration qr l (three q))
   \<and> three (applyCalibration_node qr l (plain t)) = applyCalibration qr l t"
proof -
  have "three (applyCalibration_node qr l (plain t)) = applyCalibration qr l t"
    by (simp add: applyCalibration_node_eq)
  then show ?thesis
    by (simp add: normalizeQuat_unfold normalizeQuat_node_unfold applyCalibration_node_eq)
qed

subsection \<open>Samples before the first calibration\<close>

text \<open>
  C10. In the renderer, while it is neither collecting nor calibrated, a message that
  parses changes nothing at all: no entry of the pose table, no CSV row, no bone rotation,
  no other variable.
\<close>

theorem handleSensorMessage_uncalibrated:
  assumes "\<not> isCalibrating s" and "\<not> calibrated s"
  shows "handleSensorMessage label (Data dl c dq) now s = s"
  using assms by (simp add: handleSensorMessage_def Let_def split: option.splits)

text \<open>
  The first message in the initial state leaves the initial state.
\<close>

theorem handleSensorMessage_uncalibrated_witness:
  "\<not> isCalibrating initial \<and> \<not> calibrated initial
   \<and> handleSensorMessage ''RA'' (Data (Some ''RA'') 1 (Some [1, 0, 0, 0])) 7 initial = initial"
proof -
  have a: "\<not> isCalibrating initial" and b: "\<not> calibrated initial"
    by (simp_all add: initial_def)
  show ?thesis
    using a b handleSensorMessage_uncalibrated [OF a b] by simp
qed

end
